theory Spec2Isabelle
  imports Main
begin

section \<open>JavaScript values\<close>

text \<open>
  Objects and functions are references into a heap; two references are identical
  (\<^verbatim>\<open>===\<close>) when their addresses are equal.  The primitives are compared by value.
  Numbers are integers here: \<^verbatim>\<open>NaN\<close>, the two zeros, symbols and big integers are outside
  the model.
\<close>

type_synonym addr = nat

datatype jsval = Undefined | Null | Bool bool | Num int | Str string | Obj addr | Func addr

text \<open>\<^verbatim>\<open>PropertyKey\<close> as it occurs in paths: a property name or an array index.\<close>

datatype pathKey = KeyStr string | KeyNum nat

type_synonym Path = "pathKey list"

text \<open>
  Errors of the language itself: calling a value that is no function, or reading a property of
  \<^verbatim>\<open>undefined\<close>.
\<close>

datatype jsError = TypeError

section \<open>Model properties (modelShared/prop.ts)\<close>

text \<open>
  A slot typed \<^verbatim>\<open>T | typeof noDefaultValue\<close> holds the sentinel symbol or a value of
  \<^verbatim>\<open>T\<close>; it is \<open>Absent\<close> (reads as \<^verbatim>\<open>undefined\<close>) in an object whose literal leaves the
  field out, as the \<^verbatim>\<open>_internal\<close> of \<^verbatim>\<open>idProp\<close> does behind its cast through \<^verbatim>\<open>any\<close>.
\<close>

datatype 'a orNoDefault = Absent | noDefaultValue | Given 'a

text \<open>The \<^verbatim>\<open>setter\<close> field: \<^verbatim>\<open>boolean | "assign"\<close>.\<close>

datatype setterMode = SetterBool bool | SetterAssign

text \<open>
  \<^verbatim>\<open>toFullTransform\<close> makes a new cache and returns a new object with two closures
  (\<^verbatim>\<open>transform\<close> and \<^verbatim>\<open>untransform\<close>) over the cache and the transform object it was given;
  making it writes to no object that exists.  The result is represented by the transform object
  it captures: what the closures do when they are called, and their cache, is not modelled.
\<close>

datatype 't fullTransform = FullTransform 't

definition toFullTransform :: "'t \<Rightarrow> 't fullTransform" where
  "toFullTransform transformObject = FullTransform transformObject"

text \<open>
  The \<^verbatim>\<open>_internal\<close> record of a \<^verbatim>\<open>ModelProp\<close>.  The fields whose names start with
  \<^verbatim>\<open>$\<close> hold \<^verbatim>\<open>null\<close> and only carry types; they are left out.  \<open>'v\<close> is the type of
  property values, \<open>'sn\<close> the type of snapshots, \<open>'t\<close> the type of transform objects.
\<close>

record ('v, 'sn, 't) internal =
  defaultFn :: "(unit \<Rightarrow> 'v) orNoDefault"
  defaultValue :: "'v orNoDefault"
  typeChecker :: "nat option"
  setter :: setterMode
  isId :: bool
  transform :: "'t fullTransform option"
  fromSnapshotProcessor :: "('sn \<Rightarrow> 'sn) option"
  toSnapshotProcessor :: "('sn \<Rightarrow> 'sn) option"

text \<open>
  Property objects live in a store: a \<^verbatim>\<open>ModelProp\<close> object holds a reference to its
  \<^verbatim>\<open>_internal\<close> object.  Every object literal of the source allocates a new cell.  A
  \<open>PropObject\<close> carries the three builder methods of \<^verbatim>\<open>prop\<close>; an \<open>IdPropObject\<close> is
  \<^verbatim>\<open>idProp\<close> or a copy of it and carries \<^verbatim>\<open>withSetter\<close> only.
\<close>

datatype ('v, 'sn, 't) cell =
  PropObject addr | IdPropObject addr | InternalObject "('v, 'sn, 't) internal"

record ('v, 'sn, 't) propHeap =
  cells :: "addr \<rightharpoonup> ('v, 'sn, 't) cell"
  nextAddr :: addr

definition emptyHeap :: "('v, 'sn, 't) propHeap" where
  "emptyHeap = \<lparr> cells = Map.empty, nextAddr = 0 \<rparr>"

definition alloc :: "('v, 'sn, 't) cell \<Rightarrow> ('v, 'sn, 't) propHeap \<Rightarrow> addr \<times> ('v, 'sn, 't) propHeap" where
  "alloc c h = (nextAddr h, h\<lparr> cells := (cells h)(nextAddr h \<mapsto> c), nextAddr := Suc (nextAddr h) \<rparr>)"

text \<open>Addresses at or above \<open>nextAddr\<close> are unused.\<close>

definition heapOk :: "('v, 'sn, 't) propHeap \<Rightarrow> bool" where
  "heapOk h = (\<forall>a. nextAddr h \<le> a \<longrightarrow> cells h a = None)"

text \<open>
  \<^verbatim>\<open>this._internal\<close> of an object made by \<^verbatim>\<open>prop\<close> or by one of its builders: \<open>None\<close>
  when the reference is no such object.
\<close>

definition internalOf :: "('v, 'sn, 't) propHeap \<Rightarrow> addr \<Rightarrow> ('v, 'sn, 't) internal option" where
  "internalOf h p =
     (case cells h p of
        Some (PropObject i) \<Rightarrow>
          (case cells h i of Some (InternalObject r) \<Rightarrow> Some r | _ \<Rightarrow> None)
      | _ \<Rightarrow> None)"

text \<open>
  \<^verbatim>\<open>propData._internal\<close> of any property object, \<^verbatim>\<open>idProp\<close> included: \<open>None\<close> when the
  reference is no property object.
\<close>

definition readInternal :: "('v, 'sn, 't) propHeap \<Rightarrow> addr \<Rightarrow> ('v, 'sn, 't) internal option" where
  "readInternal h p =
     (case cells h p of
        Some (PropObject i) \<Rightarrow>
          (case cells h i of Some (InternalObject r) \<Rightarrow> Some r | _ \<Rightarrow> None)
      | Some (IdPropObject i) \<Rightarrow>
          (case cells h i of Some (InternalObject r) \<Rightarrow> Some r | _ \<Rightarrow> None)
      | _ \<Rightarrow> None)"

text \<open>
  \<^verbatim>\<open>{ ...this, _internal: r }\<close>: a new property object (the methods are copied with it)
  whose \<^verbatim>\<open>_internal\<close> is a new object holding \<open>r\<close>.
\<close>

definition newProp :: "('v, 'sn, 't) internal \<Rightarrow> ('v, 'sn, 't) propHeap \<Rightarrow> addr \<times> ('v, 'sn, 't) propHeap" where
  "newProp r h =
     (let (p, h1) = alloc (PropObject (Suc (nextAddr h))) h;
          (i, h2) = alloc (InternalObject r) h1
      in (p, h2))"

definition newIdProp :: "('v, 'sn, 't) internal \<Rightarrow> ('v, 'sn, 't) propHeap \<Rightarrow> addr \<times> ('v, 'sn, 't) propHeap" where
  "newIdProp r h =
     (let (p, h1) = alloc (IdPropObject (Suc (nextAddr h))) h;
          (i, h2) = alloc (InternalObject r) h1
      in (p, h2))"


text \<open>
  The argument of \<^verbatim>\<open>prop(def?)\<close>: no argument at all (\<open>None\<close>), a function
  (\<^verbatim>\<open>typeof def === "function"\<close>), or any other value.
\<close>

datatype 'v propArg = DefFn "unit \<Rightarrow> 'v" | DefVal 'v

definition propFn :: "'v propArg option \<Rightarrow> ('v, 'sn, 't) propHeap \<Rightarrow> addr \<times> ('v, 'sn, 't) propHeap" where
  "propFn def h =
     (let hasDefaultValue = (def \<noteq> None);
          isDefFn = (case def of Some (DefFn f) \<Rightarrow> True | _ \<Rightarrow> False)
      in newProp
           \<lparr> defaultFn =
               (if hasDefaultValue \<and> isDefFn
                then (case def of Some (DefFn f) \<Rightarrow> Given f | _ \<Rightarrow> noDefaultValue)
                else noDefaultValue),
             defaultValue =
               (if hasDefaultValue \<and> \<not> isDefFn
                then (case def of Some (DefVal v) \<Rightarrow> Given v | _ \<Rightarrow> noDefaultValue)
                else noDefaultValue),
             typeChecker = None,
             setter = SetterBool False,
             isId = False,
             transform = None,
             fromSnapshotProcessor = None,
             toSnapshotProcessor = None \<rparr> h)"

text \<open>
  \<^verbatim>\<open>withSetter(mode?)\<close>, of \<^verbatim>\<open>prop\<close> and of \<^verbatim>\<open>idProp\<close>: \<^verbatim>\<open>setter: mode ?? true\<close>.
  The builders return \<open>None\<close> when the receiver is no property object or has no such method (a
  \<^verbatim>\<open>TypeError\<close>).
\<close>

definition withSetter :: "addr \<Rightarrow> setterMode option \<Rightarrow> ('v, 'sn, 't) propHeap \<Rightarrow> (addr \<times> ('v, 'sn, 't) propHeap) option" where
  "withSetter this mode h =
     (case cells h this of
        Some (IdPropObject i) \<Rightarrow>
          (case readInternal h this of
             None \<Rightarrow> None
           | Some r \<Rightarrow>
               Some (newIdProp (r\<lparr> setter := (case mode of None \<Rightarrow> SetterBool True | Some m \<Rightarrow> m) \<rparr>) h))
      | _ \<Rightarrow>
          (case internalOf h this of
             None \<Rightarrow> None
           | Some r \<Rightarrow>
               Some (newProp (r\<lparr> setter := (case mode of None \<Rightarrow> SetterBool True | Some m \<Rightarrow> m) \<rparr>) h)))"

definition withTransform :: "addr \<Rightarrow> 't \<Rightarrow> ('v, 'sn, 't) propHeap \<Rightarrow> (addr \<times> ('v, 'sn, 't) propHeap) option" where
  "withTransform this tr h =
     (case internalOf h this of
        None \<Rightarrow> None
      | Some r \<Rightarrow> Some (newProp (r\<lparr> transform := Some (toFullTransform tr) \<rparr>) h))"

text \<open>
  \<^verbatim>\<open>withSnapshotProcessor({ fromSnapshot, toSnapshot })\<close>: each of the two may be absent.
\<close>

definition withSnapshotProcessor ::
  "addr \<Rightarrow> ('sn \<Rightarrow> 'sn) option \<Rightarrow> ('sn \<Rightarrow> 'sn) option \<Rightarrow> ('v, 'sn, 't) propHeap
     \<Rightarrow> (addr \<times> ('v, 'sn, 't) propHeap) option" where
  "withSnapshotProcessor this fromSnapshot toSnapshot h =
     (case internalOf h this of
        None \<Rightarrow> None
      | Some r \<Rightarrow>
          (let newFromSnapshot =
                 (case (fromSnapshotProcessor r, fromSnapshot) of
                    (Some oldFn, Some newFn) \<Rightarrow> Some (\<lambda>sn. oldFn (newFn sn))
                  | (None, Some newFn) \<Rightarrow> Some newFn
                  | (old, None) \<Rightarrow> old);
               newToSnapshot =
                 (case (toSnapshotProcessor r, toSnapshot) of
                    (Some oldFn, Some newFn) \<Rightarrow> Some (\<lambda>sn. newFn (oldFn sn))
                  | (None, Some newFn) \<Rightarrow> Some newFn
                  | (old, None) \<Rightarrow> old)
           in Some (newProp (r\<lparr> fromSnapshotProcessor := newFromSnapshot,
                                 toSnapshotProcessor := newToSnapshot \<rparr>) h)))"

text \<open>
  \<^verbatim>\<open>getModelPropDefaultValue(propData)\<close>.  A \<^verbatim>\<open>defaultFn\<close> that is left out is
  \<^verbatim>\<open>undefined\<close>, which is not the sentinel, so it is called: a \<^verbatim>\<open>TypeError\<close>.  A
  \<^verbatim>\<open>defaultValue\<close> that is left out is not the sentinel either, and \<^verbatim>\<open>undefined\<close> is returned.
\<close>

definition getModelPropDefaultValue :: "('v, 'sn, 't) propHeap \<Rightarrow> addr \<Rightarrow> jsError + 'v orNoDefault" where
  "getModelPropDefaultValue h propData =
     (case readInternal h propData of
        None \<Rightarrow> Inl TypeError
      | Some r \<Rightarrow>
          (case defaultFn r of
             Given f \<Rightarrow> Inr (Given (f ()))
           | Absent \<Rightarrow> Inl TypeError
           | noDefaultValue \<Rightarrow>
               (case defaultValue r of
                  Given v \<Rightarrow> Inr (Given v)
                | Absent \<Rightarrow> Inr Absent
                | noDefaultValue \<Rightarrow> Inr noDefaultValue)))"

section \<open>The tree of tracked nodes\<close>

text \<open>
  The modules that keep the tree (\<^verbatim>\<open>parent/\<close>, \<^verbatim>\<open>tweaker/\<close>, \<^verbatim>\<open>model/\<close>,
  \<^verbatim>\<open>snapshot/getSnapshot\<close>, \<^verbatim>\<open>utils\<close>) are not among the source files; what
  \<^verbatim>\<open>reconcileSnapshot.ts\<close> and \<^verbatim>\<open>TypeChecker.ts\<close> use of them is modelled in this section.
\<close>

datatype objKind = PlainObject | ArrayObject | MapObject | SetObject | ModelObject

text \<open>
  Modelled from the spec: the result of \<^verbatim>\<open>fastGetParentPathIncludingDataObjects\<close> of
  \<^verbatim>\<open>parent/path\<close>, the "parent-path link" of a node: the parent and the key under which the
  parent holds the node.
\<close>

datatype ParentPath = ParentPath addr pathKey

text \<open>
  Modelled from the spec: the class \<^verbatim>\<open>TypeCheckError\<close> of \<^verbatim>\<open>types/TypeCheckError\<close>, "an error
  value \<^verbatim>\<open>{ path, expectedTypeName, actualValue }\<close>"; the arguments are in the order of
  \<^verbatim>\<open>new TypeCheckError(path, expectedTypeName, actualValue)\<close>.
\<close>

datatype TypeCheckError = TypeCheckError Path string jsval

text \<open>\<^verbatim>\<open>CheckResult = TypeCheckError | null\<close>; \<open>None\<close> is \<^verbatim>\<open>null\<close>.\<close>

type_synonym CheckResult = "TypeCheckError option"

text \<open>
  The mutable state: the tree's metadata, and the caches and listener registries of
  \<^verbatim>\<open>TypeChecker.ts\<close>.  A type checker is named by its identity (a number); the weak maps
  are keyed by object addresses.  \<open>checkResultCache st c = None\<close> means the checker \<open>c\<close> has not
  created its cache yet.
\<close>

record state =
  kinds :: "addr \<rightharpoonup> objKind"
  slots :: "addr \<Rightarrow> pathKey \<rightharpoonup> jsval"
  objectParents :: "addr \<rightharpoonup> ParentPath"
  tweakedObjects :: "addr set"
  internalSnapshots :: "addr \<rightharpoonup> addr"
  nextTypeChecker :: nat
  checkResultCache :: "nat \<Rightarrow> (addr \<rightharpoonup> CheckResult) option"
  toSnapshotProcessorCache :: "nat \<Rightarrow> addr \<rightharpoonup> jsval"
  typeCheckersWithCachedResultsOfObject :: "addr \<rightharpoonup> nat list"
  typeCheckersWithCachedSnapshotProcessorResultsOfObject :: "addr \<rightharpoonup> nat list"

text \<open>
  Modelled from the spec: \<^verbatim>\<open>isPrimitive\<close> of \<^verbatim>\<open>utils\<close> ("Primitive snapshot"): every value
  that is not an object or a function.
\<close>

fun isPrimitive :: "jsval \<Rightarrow> bool" where
  "isPrimitive (Obj a) = False"
| "isPrimitive (Func a) = False"
| "isPrimitive v = True"

text \<open>Modelled from the spec: \<^verbatim>\<open>isMap\<close> and \<^verbatim>\<open>isSet\<close> of \<^verbatim>\<open>utils\<close> ("a map or set container value").\<close>

fun isMap :: "state \<Rightarrow> jsval \<Rightarrow> bool" where
  "isMap st (Obj a) = (kinds st a = Some MapObject)"
| "isMap st v = False"

fun isSet :: "state \<Rightarrow> jsval \<Rightarrow> bool" where
  "isSet st (Obj a) = (kinds st a = Some SetObject)"
| "isSet st v = False"

text \<open>Modelled from the spec: \<^verbatim>\<open>isModel\<close> of \<^verbatim>\<open>model/utils\<close> ("model-kind nodes").\<close>

fun isModel :: "state \<Rightarrow> jsval \<Rightarrow> bool" where
  "isModel st (Obj a) = (kinds st a = Some ModelObject)"
| "isModel st v = False"

text \<open>
  Modelled from the spec: the reserved keys of \<^verbatim>\<open>model/metadata\<close> ("a type-identifier string
  key and an id string key"), and reading a property of a value.
\<close>

definition modelTypeKey :: pathKey where
  "modelTypeKey = KeyStr ''$modelType''"

definition modelIdKey :: pathKey where
  "modelIdKey = KeyStr ''$modelId''"

fun readProp :: "state \<Rightarrow> jsval \<Rightarrow> pathKey \<Rightarrow> jsval" where
  "readProp st (Obj a) k = (case slots st a k of Some v \<Rightarrow> v | None \<Rightarrow> Undefined)"
| "readProp st v k = Undefined"

text \<open>
  Modelled from the spec: the model pool, "\<^verbatim>\<open>findByTypeAndId(typeId, id) -> node | undefined\<close>";
  \<open>None\<close> is \<^verbatim>\<open>undefined\<close>.
\<close>

type_synonym ModelPool = "jsval \<Rightarrow> jsval \<Rightarrow> addr option"

definition findModelByTypeAndId :: "ModelPool \<Rightarrow> jsval \<Rightarrow> jsval \<Rightarrow> addr option" where
  "findModelByTypeAndId modelPool modelType modelId = modelPool modelType modelId"

text \<open>
  Modelled from the spec: \<^verbatim>\<open>isTweakedObject(value, true)\<close> of \<^verbatim>\<open>tweaker/core\<close>: the value is a
  tracked node of the tree.
\<close>

fun isTweakedObject :: "state \<Rightarrow> jsval \<Rightarrow> bool" where
  "isTweakedObject st (Obj a) = (a \<in> tweakedObjects st)"
| "isTweakedObject st v = False"

text \<open>
  Modelled from the spec: \<^verbatim>\<open>fastGetParentPathIncludingDataObjects\<close> and
  \<^verbatim>\<open>fastGetParentIncludingDataObjects\<close> of \<^verbatim>\<open>parent/path\<close>: the "parent-path link" of a node,
  \<open>None\<close> (\<^verbatim>\<open>undefined\<close>) for a root or a value that is no node.
\<close>

fun fastGetParentPathIncludingDataObjects :: "state \<Rightarrow> jsval \<Rightarrow> ParentPath option" where
  "fastGetParentPathIncludingDataObjects st (Obj a) = objectParents st a"
| "fastGetParentPathIncludingDataObjects st v = None"

definition fastGetParentIncludingDataObjects :: "state \<Rightarrow> addr \<Rightarrow> addr option" where
  "fastGetParentIncludingDataObjects st a =
     (case objectParents st a of Some (ParentPath p k) \<Rightarrow> Some p | None \<Rightarrow> None)"

text \<open>
  Modelled from the spec: \<^verbatim>\<open>set(obj, key, value)\<close> on a tracked container, with the
  interception of the tweaker (section 4.1): the slot takes the new value, "detaching a child
  (removing it from its container) clears its path metadata", and a newly attached child gets its
  path metadata.  Patches and cache invalidation are not part of this model.
\<close>

definition mobx_set :: "addr \<Rightarrow> pathKey \<Rightarrow> jsval \<Rightarrow> state \<Rightarrow> state" where
  "mobx_set obj key v st =
     (let detached =
            (case slots st obj key of
               Some (Obj old) \<Rightarrow> (if v = Obj old then objectParents st else (objectParents st)(old := None))
             | _ \<Rightarrow> objectParents st);
          attached =
            (case v of
               Obj new \<Rightarrow> detached(new \<mapsto> ParentPath obj key)
             | _ \<Rightarrow> detached)
      in st\<lparr> slots := (slots st)(obj := (slots st obj)(key \<mapsto> v)),
              objectParents := attached \<rparr>)"

text \<open>
  Modelled from the spec: \<^verbatim>\<open>failure(msg)\<close> of \<^verbatim>\<open>utils\<close> builds the error that is thrown,
  "a synchronous exception with a descriptive message".  A message made by a template literal is
  kept as its text and the value interpolated after it.
\<close>

datatype failure = Failure string | FailureWith string jsval

text \<open>
  Modelled from the spec: \<^verbatim>\<open>getSnapshot\<close> of \<^verbatim>\<open>snapshot/getSnapshot\<close> (section 4.2):
  "primitives pass through"; a tracked node yields its current snapshot, a plain object, the
  same one until the node changes.  The spec gives no result for any other value; the model
  fails there.
\<close>

fun getSnapshot :: "state \<Rightarrow> jsval \<Rightarrow> failure + jsval" where
  "getSnapshot st (Obj a) =
     (if a \<in> tweakedObjects st
      then (case internalSnapshots st a of
              Some s \<Rightarrow> Inr (Obj s)
            | None \<Rightarrow> Inl (Failure ''getSnapshot: not a tree node''))
      else Inl (Failure ''getSnapshot: not a tree node''))"
| "getSnapshot st (Func a) = Inl (Failure ''getSnapshot: not a tree node'')"
| "getSnapshot st v = Inr v"

section \<open>Reconciliation (snapshot/reconcileSnapshot.ts)\<close>

text \<open>
  A reconciler may mutate the tree and may throw; it returns \<^verbatim>\<open>undefined\<close> when it does not
  claim the pair.  The module-level list \<^verbatim>\<open>reconcilers\<close> is passed in and handed back.
\<close>

type_synonym Reconciler =
  "jsval \<Rightarrow> jsval \<Rightarrow> ModelPool \<Rightarrow> jsval \<Rightarrow> state \<Rightarrow> (failure + jsval) \<times> state"

record reconcilerEntry =
  priority :: int
  reconciler :: Reconciler

definition registerReconciler :: "int \<Rightarrow> Reconciler \<Rightarrow> reconcilerEntry list \<Rightarrow> reconcilerEntry list" where
  "registerReconciler prio r reconcilers =
     sort_key priority (reconcilers @ [\<lparr> priority = prio, reconciler = r \<rparr>])"

text \<open>
  The loop over the registered reconcilers: \<open>Some ret\<close> is the \<^verbatim>\<open>return ret\<close> of the first
  reconciler whose result is not \<^verbatim>\<open>undefined\<close>, \<open>None\<close> the end of the loop.
\<close>

fun runReconcilers ::
  "reconcilerEntry list \<Rightarrow> jsval \<Rightarrow> jsval \<Rightarrow> ModelPool \<Rightarrow> jsval \<Rightarrow> state
     \<Rightarrow> (failure + jsval option) \<times> state" where
  "runReconcilers [] val sn modelPool parent st = (Inr None, st)"
| "runReconcilers (e # es) val sn modelPool parent st =
     (case reconciler e val sn modelPool parent st of
        (Inl err, st1) \<Rightarrow> (Inl err, st1)
      | (Inr ret, st1) \<Rightarrow>
          (if ret \<noteq> Undefined then (Inr (Some ret), st1)
           else runReconcilers es val sn modelPool parent st1))"

text \<open>
  \<^verbatim>\<open>registerDefaultReconcilers\<close> is not among the source files: it is a parameter, a function
  on the list of registered reconcilers.
\<close>

definition reconcileSnapshot ::
  "(reconcilerEntry list \<Rightarrow> reconcilerEntry list) \<Rightarrow> reconcilerEntry list
     \<Rightarrow> jsval \<Rightarrow> jsval \<Rightarrow> ModelPool \<Rightarrow> jsval \<Rightarrow> state
     \<Rightarrow> (failure + jsval) \<times> reconcilerEntry list \<times> state" where
  "reconcileSnapshot registerDefaultReconcilers reconcilers val sn modelPool parent st =
     (if isPrimitive sn then (Inr sn, reconcilers, st)
      else
        (case getSnapshot st val of
           Inl err \<Rightarrow> (Inl err, reconcilers, st)
         | Inr current \<Rightarrow>
             (if current = sn then (Inr val, reconcilers, st)
              else
                (let registered = registerDefaultReconcilers reconcilers
                 in (case runReconcilers registered val sn modelPool parent st of
                       (Inl err, st1) \<Rightarrow> (Inl err, registered, st1)
                     | (Inr (Some ret), st1) \<Rightarrow> (Inr ret, registered, st1)
                     | (Inr None, st1) \<Rightarrow>
                         (if isMap st1 sn
                            then (Inl (Failure ''a snapshot must not contain maps''), registered, st1)
                          else if isSet st1 sn
                            then (Inl (Failure ''a snapshot must not contain sets''), registered, st1)
                          else (Inl (FailureWith ''unsupported snapshot - '' sn), registered, st1)))))))"

definition detachIfNeeded :: "jsval \<Rightarrow> jsval \<Rightarrow> ModelPool \<Rightarrow> state \<Rightarrow> state" where
  "detachIfNeeded newValue oldValue modelPool st =
     (if newValue = oldValue then st
      else if isModel st newValue \<and>
              findModelByTypeAndId modelPool
                (readProp st newValue modelTypeKey) (readProp st newValue modelIdKey) \<noteq> None
        then (case fastGetParentPathIncludingDataObjects st newValue of
                Some (ParentPath parent pth) \<Rightarrow> mobx_set parent pth Null st
              | None \<Rightarrow> st)
      else st)"

section \<open>Type checkers (types/TypeChecker.ts)\<close>

datatype TypeCheckerBaseType = ObjectBase | ArrayBase | PrimitiveBase | AnyBase

type_synonym CheckFunction = "jsval \<Rightarrow> Path \<Rightarrow> state \<Rightarrow> CheckResult \<times> state"

text \<open>
  The immutable part of a \<^verbatim>\<open>TypeChecker\<close> instance.  \<open>tcId\<close> is the identity of the instance;
  \<open>raw_check\<close>, \<open>raw_fromSnapshotProcessor\<close> and \<open>raw_toSnapshotProcessor\<close> are the private
  \<^verbatim>\<open>_check\<close> (\<open>None\<close> is \<^verbatim>\<open>null\<close>), \<^verbatim>\<open>_fromSnapshotProcessor\<close> and
  \<^verbatim>\<open>_toSnapshotProcessor\<close>; any of them may read and change the state.  The type-name and
  type-info members are left out.  The caches of the instance are in the state, under \<open>tcId\<close>.
\<close>

record TypeChecker =
  tcId :: nat
  baseType :: TypeCheckerBaseType
  "unchecked" :: bool
  raw_check :: "CheckFunction option"
  raw_fromSnapshotProcessor :: "jsval \<Rightarrow> state \<Rightarrow> jsval \<times> state"
  raw_toSnapshotProcessor :: "jsval \<Rightarrow> state \<Rightarrow> jsval \<times> state"

text \<open>
  The constructor: \<^verbatim>\<open>this.unchecked = !_check\<close>; the new instance has no check-result cache
  and an empty \<^verbatim>\<open>_toSnapshotProcessorCache\<close>.
\<close>

definition TypeChecker_new ::
  "TypeCheckerBaseType \<Rightarrow> CheckFunction option \<Rightarrow> (jsval \<Rightarrow> state \<Rightarrow> jsval \<times> state)
     \<Rightarrow> (jsval \<Rightarrow> state \<Rightarrow> jsval \<times> state) \<Rightarrow> state \<Rightarrow> TypeChecker \<times> state" where
  "TypeChecker_new bt chk fromSP toSP st =
     (let this = nextTypeChecker st
      in (\<lparr> tcId = this, baseType = bt, unchecked = (chk = None), raw_check = chk,
             raw_fromSnapshotProcessor = fromSP, raw_toSnapshotProcessor = toSP \<rparr>,
          st\<lparr> nextTypeChecker := Suc this,
              checkResultCache := (checkResultCache st)(this := None),
              toSnapshotProcessorCache := (toSnapshotProcessorCache st)(this := Map.empty) \<rparr>))"

definition emptyPath :: Path where
  "emptyPath = []"

text \<open>A JavaScript \<^verbatim>\<open>Set\<close>, in insertion order.\<close>

definition setAdd :: "'a \<Rightarrow> 'a list \<Rightarrow> 'a list" where
  "setAdd x xs = (if x \<in> set xs then xs else xs @ [x])"

text \<open>
  Modelled from the spec: \<^verbatim>\<open>getOrCreate(map, key, create)\<close> of \<^verbatim>\<open>utils/mapUtils\<close>, which
  keeps the "weak listener sets": the value under the key, created and stored first when there
  is none.
\<close>

definition getOrCreate :: "('k \<rightharpoonup> 'v) \<Rightarrow> 'k \<Rightarrow> 'v \<Rightarrow> 'v \<times> ('k \<rightharpoonup> 'v)" where
  "getOrCreate m k create =
     (case m k of Some v \<Rightarrow> (v, m) | None \<Rightarrow> (create, m(k \<mapsto> create)))"

definition TypeChecker_createCacheIfNeeded :: "nat \<Rightarrow> state \<Rightarrow> state" where
  "TypeChecker_createCacheIfNeeded this st =
     (case checkResultCache st this of
        None \<Rightarrow> st\<lparr> checkResultCache := (checkResultCache st)(this := Some Map.empty) \<rparr>
      | Some c \<Rightarrow> st)"

definition TypeChecker_setCachedResult :: "nat \<Rightarrow> addr \<Rightarrow> CheckResult \<Rightarrow> state \<Rightarrow> state" where
  "TypeChecker_setCachedResult this obj newCacheValue st =
     (let st1 = TypeChecker_createCacheIfNeeded this st;
          st2 = st1\<lparr> checkResultCache :=
                       (checkResultCache st1)
                         (this := (case checkResultCache st1 this of
                                     Some c \<Rightarrow> Some (c(obj \<mapsto> newCacheValue))
                                   | None \<Rightarrow> None)) \<rparr>;
          (typeCheckerSet, registry) = getOrCreate (typeCheckersWithCachedResultsOfObject st2) obj []
      in st2\<lparr> typeCheckersWithCachedResultsOfObject := registry(obj \<mapsto> setAdd this typeCheckerSet) \<rparr>)"

definition TypeChecker_invalidateCachedResult :: "nat \<Rightarrow> addr \<Rightarrow> state \<Rightarrow> state" where
  "TypeChecker_invalidateCachedResult this obj st =
     (case checkResultCache st this of
        None \<Rightarrow> st
      | Some c \<Rightarrow> st\<lparr> checkResultCache := (checkResultCache st)(this := Some (c(obj := None))) \<rparr>)"

text \<open>\<open>None\<close> is \<^verbatim>\<open>undefined\<close>: nothing is cached; \<open>Some None\<close> is a cached \<^verbatim>\<open>null\<close>.\<close>

definition TypeChecker_getCachedResult :: "nat \<Rightarrow> addr \<Rightarrow> state \<Rightarrow> CheckResult option" where
  "TypeChecker_getCachedResult this obj st =
     (case checkResultCache st this of None \<Rightarrow> None | Some c \<Rightarrow> c obj)"

text \<open>Calling \<^verbatim>\<open>this._check!\<close> when it is \<^verbatim>\<open>null\<close> is a \<^verbatim>\<open>TypeError\<close>.\<close>

definition callCheck :: "TypeChecker \<Rightarrow> jsval \<Rightarrow> Path \<Rightarrow> state \<Rightarrow> (jsError + CheckResult) \<times> state" where
  "callCheck tc v pth st =
     (case raw_check tc of
        None \<Rightarrow> (Inl TypeError, st)
      | Some chk \<Rightarrow> (let (r, st1) = chk v pth st in (Inr r, st1)))"

text \<open>
  The end of \<^verbatim>\<open>check\<close>: a cached error is returned as a new \<^verbatim>\<open>TypeCheckError\<close> under the
  path of the call, a cached \<^verbatim>\<open>null\<close> as \<^verbatim>\<open>null\<close>.
\<close>

fun withPathPrefix :: "Path \<Rightarrow> CheckResult \<Rightarrow> CheckResult" where
  "withPathPrefix pth (Some (TypeCheckError cachedPath expected actual)) =
     Some (TypeCheckError (pth @ cachedPath) expected actual)"
| "withPathPrefix pth None = None"

definition TypeChecker_check :: "TypeChecker \<Rightarrow> jsval \<Rightarrow> Path \<Rightarrow> state \<Rightarrow> (jsError + CheckResult) \<times> state" where
  "TypeChecker_check tc v pth st =
     (if unchecked tc then (Inr None, st)
      else
        (case v of
           Obj obj \<Rightarrow>
             (if \<not> isTweakedObject st v then callCheck tc v pth st
              else
                (case TypeChecker_getCachedResult (tcId tc) obj st of
                   Some cachedResult \<Rightarrow> (Inr (withPathPrefix pth cachedResult), st)
                 | None \<Rightarrow>
                     (case callCheck tc v emptyPath st of
                        (Inl err, st1) \<Rightarrow> (Inl err, st1)
                      | (Inr cachedResult, st1) \<Rightarrow>
                          (Inr (withPathPrefix pth cachedResult),
                           TypeChecker_setCachedResult (tcId tc) obj cachedResult st1))))
         | _ \<Rightarrow> callCheck tc v pth st))"

definition TypeChecker_fromSnapshotProcessor :: "TypeChecker \<Rightarrow> jsval \<Rightarrow> state \<Rightarrow> jsval \<times> state" where
  "TypeChecker_fromSnapshotProcessor tc sn st = raw_fromSnapshotProcessor tc sn st"

definition TypeChecker_invalidateSnapshotProcessorCachedResult :: "nat \<Rightarrow> addr \<Rightarrow> state \<Rightarrow> state" where
  "TypeChecker_invalidateSnapshotProcessorCachedResult this obj st =
     st\<lparr> toSnapshotProcessorCache :=
           (toSnapshotProcessorCache st)(this := (toSnapshotProcessorCache st this)(obj := None)) \<rparr>"

definition TypeChecker_toSnapshotProcessor :: "TypeChecker \<Rightarrow> jsval \<Rightarrow> state \<Rightarrow> jsval \<times> state" where
  "TypeChecker_toSnapshotProcessor tc sn st =
     (case sn of
        Obj obj \<Rightarrow>
          (case toSnapshotProcessorCache st (tcId tc) obj of
             Some cached \<Rightarrow> (cached, st)
           | None \<Rightarrow>
               (let (v, st1) = raw_toSnapshotProcessor tc sn st;
                    st2 = st1\<lparr> toSnapshotProcessorCache :=
                                 (toSnapshotProcessorCache st1)
                                   (tcId tc := (toSnapshotProcessorCache st1 (tcId tc))(obj \<mapsto> v)) \<rparr>;
                    (typeCheckerSet, registry) =
                      getOrCreate (typeCheckersWithCachedSnapshotProcessorResultsOfObject st2) obj []
                in (v, st2\<lparr> typeCheckersWithCachedSnapshotProcessorResultsOfObject :=
                              registry(obj \<mapsto> setAdd (tcId tc) typeCheckerSet) \<rparr>)))
      | _ \<Rightarrow> raw_toSnapshotProcessor tc sn st)"

text \<open>One round of the loop of \<^verbatim>\<open>invalidateCachedTypeCheckerResult\<close>, for the object \<open>current\<close>.\<close>

definition invalidateCurrent :: "addr \<Rightarrow> state \<Rightarrow> state" where
  "invalidateCurrent current st =
     (case typeCheckersWithCachedResultsOfObject st current of
        None \<Rightarrow> st
      | Some tcs \<Rightarrow>
          (let st1 = foldl (\<lambda>s typeChecker. TypeChecker_invalidateCachedResult typeChecker current s) st tcs
           in st1\<lparr> typeCheckersWithCachedResultsOfObject :=
                      (typeCheckersWithCachedResultsOfObject st1)(current := None) \<rparr>))"

text \<open>
  The loop \<^verbatim>\<open>while (current)\<close> climbs the parent links; it returns only when it reaches an
  object without a parent.  \<open>None\<close> as the result is a loop that never ends.
\<close>

partial_function (option) invalidateLoop :: "addr option \<Rightarrow> state \<Rightarrow> state option" where
  "invalidateLoop current st =
     (case current of
        None \<Rightarrow> Some st
      | Some c \<Rightarrow>
          (let st1 = invalidateCurrent c st
           in invalidateLoop (fastGetParentIncludingDataObjects st1 c) st1))"

definition invalidateCachedTypeCheckerResult :: "addr \<Rightarrow> state \<Rightarrow> state option" where
  "invalidateCachedTypeCheckerResult obj st = invalidateLoop (Some obj) st"

definition invalidateCachedToSnapshotProcessorResult :: "addr \<Rightarrow> state \<Rightarrow> state" where
  "invalidateCachedToSnapshotProcessorResult obj st =
     (case typeCheckersWithCachedSnapshotProcessorResultsOfObject st obj of
        None \<Rightarrow> st
      | Some tcs \<Rightarrow>
          (let st1 = foldl (\<lambda>s typeChecker. TypeChecker_invalidateSnapshotProcessorCachedResult typeChecker obj s) st tcs
           in st1\<lparr> typeCheckersWithCachedSnapshotProcessorResultsOfObject :=
                      (typeCheckersWithCachedSnapshotProcessorResultsOfObject st1)(obj := None) \<rparr>))"

text \<open>
  The ancestors of an object, itself first and the root last, found by climbing at most \<open>n\<close>
  parent links; \<open>None\<close> when the root is further away.
\<close>

fun ancestors :: "nat \<Rightarrow> state \<Rightarrow> addr \<Rightarrow> addr list option" where
  "ancestors 0 st a = None"
| "ancestors (Suc n) st a =
     (case fastGetParentIncludingDataObjects st a of
        None \<Rightarrow> Some [a]
      | Some p \<Rightarrow> (case ancestors n st p of None \<Rightarrow> None | Some ps \<Rightarrow> Some (a # ps)))"

section \<open>Example data\<close>

text \<open>Concrete properties, processors and states at which the theorems below are instantiated.\<close>

definition ten :: "unit \<Rightarrow> int" where
  "ten u = 10"

definition addOne :: "int \<Rightarrow> int" where
  "addOne x = x + 1"

definition double :: "int \<Rightarrow> int" where
  "double x = 2 * x"

text \<open>\<^verbatim>\<open>prop(() => 10)\<close>, \<^verbatim>\<open>prop(5)\<close> and \<^verbatim>\<open>prop()\<close>, each in an empty store.\<close>

definition exPropTen :: "addr \<times> (int, int, unit) propHeap" where
  "exPropTen = propFn (Some (DefFn ten)) emptyHeap"

definition exPropFive :: "addr \<times> (int, int, unit) propHeap" where
  "exPropFive = propFn (Some (DefVal 5)) emptyHeap"

definition exPropPlain :: "addr \<times> (int, int, unit) propHeap" where
  "exPropPlain = propFn None emptyHeap"



definition exInternalTen :: "(int, int, unit) internal" where
  "exInternalTen =
     \<lparr> defaultFn = Given ten, defaultValue = noDefaultValue, typeChecker = None,
       setter = SetterBool False, isId = False, transform = None,
       fromSnapshotProcessor = None, toSnapshotProcessor = None \<rparr>"

text \<open>
  \<^verbatim>\<open>prop().withSnapshotProcessor({ fromSnapshot: addOne, toSnapshot: addOne })
  .withSnapshotProcessor({ fromSnapshot: double, toSnapshot: double })\<close>.
\<close>

definition exComposed :: "addr \<times> (int, int, unit) propHeap" where
  "exComposed =
     (case withSnapshotProcessor (fst exPropPlain) (Some addOne) (Some addOne) (snd exPropPlain) of
        None \<Rightarrow> exPropPlain
      | Some (p1, h1) \<Rightarrow>
          (case withSnapshotProcessor p1 (Some double) (Some double) h1 of
             None \<Rightarrow> (p1, h1)
           | Some composed \<Rightarrow> composed))"

text \<open>
  The \<^verbatim>\<open>fromSnapshotProcessor\<close> and the \<^verbatim>\<open>toSnapshotProcessor\<close> of a property applied to a
  snapshot; \<open>None\<close> when the property has none.
\<close>

definition runFromSnapshot :: "('v, 'sn, 't) propHeap \<Rightarrow> addr \<Rightarrow> 'sn \<Rightarrow> 'sn option" where
  "runFromSnapshot h p sn =
     (case internalOf h p of
        Some r \<Rightarrow> (case fromSnapshotProcessor r of Some fn \<Rightarrow> Some (fn sn) | None \<Rightarrow> None)
      | None \<Rightarrow> None)"

definition runToSnapshot :: "('v, 'sn, 't) propHeap \<Rightarrow> addr \<Rightarrow> 'sn \<Rightarrow> 'sn option" where
  "runToSnapshot h p sn =
     (case internalOf h p of
        Some r \<Rightarrow> (case toSnapshotProcessor r of Some fn \<Rightarrow> Some (fn sn) | None \<Rightarrow> None)
      | None \<Rightarrow> None)"

text \<open>A state with no objects, no checkers and empty caches.\<close>

definition emptyState :: state where
  "emptyState =
     \<lparr> kinds = Map.empty, slots = (\<lambda>a. Map.empty), objectParents = Map.empty,
       tweakedObjects = {}, internalSnapshots = Map.empty, nextTypeChecker = 0,
       checkResultCache = (\<lambda>c. None), toSnapshotProcessorCache = (\<lambda>c. Map.empty),
       typeCheckersWithCachedResultsOfObject = Map.empty,
       typeCheckersWithCachedSnapshotProcessorResultsOfObject = Map.empty \<rparr>"

text \<open>
  A tree: the array 0 is the root and holds the model 1 (type \<^verbatim>\<open>A\<close>, id \<^verbatim>\<open>1\<close>) at index 0.
  The objects 3 and 2 are their current snapshots; 4 is a \<^verbatim>\<open>Map\<close> and 5 a \<^verbatim>\<open>Set\<close>, outside the tree.
\<close>

definition exTree :: state where
  "exTree =
     emptyState
       \<lparr> kinds := [0 \<mapsto> ArrayObject, 1 \<mapsto> ModelObject, 2 \<mapsto> PlainObject, 3 \<mapsto> ArrayObject,
                   4 \<mapsto> MapObject, 5 \<mapsto> SetObject],
         slots := (\<lambda>a. Map.empty)
                    (0 := [KeyNum 0 \<mapsto> Obj 1],
                     1 := [modelTypeKey \<mapsto> Str ''A'', modelIdKey \<mapsto> Str ''1'']),
         objectParents := [1 \<mapsto> ParentPath 0 (KeyNum 0)],
         tweakedObjects := {0, 1},
         internalSnapshots := [0 \<mapsto> 3, 1 \<mapsto> 2] \<rparr>"

text \<open>A pool that knows the model 1 under its type and id.\<close>

definition exPool :: ModelPool where
  "exPool modelType modelId = (if modelType = Str ''A'' \<and> modelId = Str ''1'' then Some 1 else None)"

text \<open>A check function that always reports an error at the path it is given.\<close>

definition exCheck :: CheckFunction where
  "exCheck v pth st = (Some (TypeCheckError pth ''number'' v), st)"

text \<open>A snapshot processor that returns its input.\<close>

definition exProcessor :: "jsval \<Rightarrow> state \<Rightarrow> jsval \<times> state" where
  "exProcessor sn st = (sn, st)"

text \<open>Two checked type checkers and an unchecked one, made one after the other.\<close>

definition exChecker0 :: "TypeChecker \<times> state" where
  "exChecker0 = TypeChecker_new ObjectBase (Some exCheck) exProcessor exProcessor exTree"

definition exChecker1 :: "TypeChecker \<times> state" where
  "exChecker1 = TypeChecker_new ObjectBase (Some exCheck) exProcessor exProcessor (snd exChecker0)"

definition exUnchecked :: "TypeChecker \<times> state" where
  "exUnchecked = TypeChecker_new AnyBase None exProcessor exProcessor (snd exChecker1)"

text \<open>
  The checkers 0 and 1 have both cached a result for the model 1, and the checker 0 one for the
  root 0.
\<close>

definition exCached :: state where
  "exCached =
     TypeChecker_setCachedResult 0 0 None
       (TypeChecker_setCachedResult 1 1 None
          (TypeChecker_setCachedResult 0 1 (Some (TypeCheckError [] ''number'' (Obj 1)))
             (snd exChecker1)))"

text \<open>
  A reconciler that claims no pair, one that claims every pair (and drops every node from the set
  of tracked objects while doing so), and a registration of defaults that registers the first.
\<close>

definition exDecline :: Reconciler where
  "exDecline val sn modelPool parent st = (Inr Undefined, st)"

definition exClaimAll :: Reconciler where
  "exClaimAll val sn modelPool parent st = (Inr (Obj 0), st\<lparr> tweakedObjects := {} \<rparr>)"

definition exDefaults :: "reconcilerEntry list \<Rightarrow> reconcilerEntry list" where
  "exDefaults reconcilers = registerReconciler 0 exDecline reconcilers"

section \<open>Model properties: defaults and builders\<close>

lemma internalOf_newProp [simp]: "internalOf (snd (newProp r h)) (fst (newProp r h)) = Some r"
  by (simp add: newProp_def alloc_def internalOf_def Let_def)

lemma newProp_fresh: "heapOk h \<Longrightarrow> cells h (fst (newProp r h)) = None"
  by (simp add: newProp_def alloc_def heapOk_def Let_def)

lemma newProp_frame: "heapOk h \<Longrightarrow> cells h a \<noteq> None \<Longrightarrow> cells (snd (newProp r h)) a = cells h a"
  by (auto simp add: newProp_def alloc_def heapOk_def Let_def)

lemma newProp_heapOk: "heapOk h \<Longrightarrow> heapOk (snd (newProp r h))"
  by (simp add: newProp_def alloc_def heapOk_def Let_def)

lemma heapOk_emptyHeap: "heapOk emptyHeap"
  by (simp add: heapOk_def emptyHeap_def)

lemma internalOf_frame:
  assumes "heapOk h" "internalOf h p = Some r"
  shows "internalOf (snd (newProp r' h)) p = Some r"
proof -
  from assms(2) obtain i where p: "cells h p = Some (PropObject i)" and i: "cells h i = Some (InternalObject r)"
    by (auto simp add: internalOf_def split: option.splits cell.splits)
  have "cells (snd (newProp r' h)) p = cells h p" using newProp_frame[OF assms(1)] p by simp
  moreover have "cells (snd (newProp r' h)) i = cells h i" using newProp_frame[OF assms(1)] i by simp
  ultimately show ?thesis using p i by (simp add: internalOf_def)
qed

lemma exPropTen_internal: "internalOf (snd exPropTen) (fst exPropTen) = Some exInternalTen"
  by (simp add: exPropTen_def propFn_def exInternalTen_def)

lemma exPropTen_heapOk: "heapOk (snd exPropTen)"
  by (simp add: exPropTen_def propFn_def newProp_heapOk heapOk_emptyHeap)

lemma exPropPlain_internal:
  "internalOf (snd exPropPlain) (fst exPropPlain) =
     Some \<lparr> defaultFn = noDefaultValue, defaultValue = noDefaultValue, typeChecker = None,
            setter = SetterBool False, isId = False, transform = None,
            fromSnapshotProcessor = None, toSnapshotProcessor = None \<rparr>"
  by (simp add: exPropPlain_def propFn_def)

lemma exPropFive_internal:
  "internalOf (snd exPropFive) (fst exPropFive) =
     Some \<lparr> defaultFn = noDefaultValue, defaultValue = Given 5, typeChecker = None,
            setter = SetterBool False, isId = False, transform = None,
            fromSnapshotProcessor = None, toSnapshotProcessor = None \<rparr>"
  by (simp add: exPropFive_def propFn_def)

lemma readInternal_internalOf: "internalOf h p = Some r \<Longrightarrow> readInternal h p = Some r"
  by (auto simp add: internalOf_def readInternal_def split: option.splits cell.splits)

lemma readInternal_newProp: "readInternal (snd (newProp r h)) (fst (newProp r h)) = Some r"
  by (rule readInternal_internalOf) simp

text \<open>
  On a property whose \<^verbatim>\<open>_internal\<close> holds both fields, as every property made by \<^verbatim>\<open>prop\<close>
  and its builders does, \<^verbatim>\<open>getModelPropDefaultValue\<close> returns the result of calling
  \<^verbatim>\<open>defaultFn\<close> when it is a function, otherwise \<^verbatim>\<open>defaultValue\<close> when it is not the
  sentinel, otherwise the sentinel.
\<close>

lemma getModelPropDefaultValue_of_prop:
  "(internalOf h p = Some r \<longrightarrow>
      (\<forall>f. defaultFn r = Given f \<longrightarrow> getModelPropDefaultValue h p = Inr (Given (f ()))) \<and>
      (\<forall>v. defaultFn r = noDefaultValue \<and> defaultValue r = Given v \<longrightarrow>
           getModelPropDefaultValue h p = Inr (Given v)) \<and>
      (defaultFn r = noDefaultValue \<and> defaultValue r = noDefaultValue \<longrightarrow>
           getModelPropDefaultValue h p = Inr noDefaultValue)) \<and>
   getModelPropDefaultValue (snd (propFn arg h0)) (fst (propFn arg h0)) =
     Inr (case arg of
            None \<Rightarrow> noDefaultValue
          | Some (DefFn f) \<Rightarrow> Given (f ())
          | Some (DefVal v) \<Rightarrow> Given v)"
proof -
  have general: "getModelPropDefaultValue h p =
                   (case defaultFn r of
                      Given f \<Rightarrow> Inr (Given (f ()))
                    | Absent \<Rightarrow> Inl TypeError
                    | noDefaultValue \<Rightarrow> Inr (defaultValue r))"
    if "internalOf h p = Some r"
    using readInternal_internalOf[OF that]
    by (simp add: getModelPropDefaultValue_def split: orNoDefault.splits)
  have made: "getModelPropDefaultValue (snd (propFn arg h0)) (fst (propFn arg h0)) =
     Inr (case arg of
            None \<Rightarrow> noDefaultValue
          | Some (DefFn f) \<Rightarrow> Given (f ())
          | Some (DefVal v) \<Rightarrow> Given v)"
    by (simp add: getModelPropDefaultValue_def propFn_def Let_def readInternal_newProp
          split: option.splits propArg.splits)
  show ?thesis using general made by simp
qed


text \<open>
  Claim C9.  The builder methods \<^verbatim>\<open>withSetter\<close>, \<^verbatim>\<open>withTransform\<close> and
  \<^verbatim>\<open>withSnapshotProcessor\<close> do not mutate: each returns a property object at an address that
  was unused, every cell of the store that existed keeps its content, so the receiver still has
  the same \<^verbatim>\<open>_internal\<close> record; the new object differs from the receiver in the fields the
  builder sets and in no other field.
\<close>

theorem builders_leave_receiver_unchanged:
  assumes ok: "heapOk h" and recv: "internalOf h this = Some r"
  shows "(\<exists>p' h'. withSetter this mode h = Some (p', h') \<and> cells h p' = None \<and>
            internalOf h' this = Some r \<and> (\<forall>a. cells h a \<noteq> None \<longrightarrow> cells h' a = cells h a) \<and>
            internalOf h' p' =
              Some (r\<lparr> setter := (case mode of None \<Rightarrow> SetterBool True | Some m \<Rightarrow> m) \<rparr>)) \<and>
         (\<exists>p' h'. withTransform this tr h = Some (p', h') \<and> cells h p' = None \<and>
            internalOf h' this = Some r \<and> (\<forall>a. cells h a \<noteq> None \<longrightarrow> cells h' a = cells h a) \<and>
            internalOf h' p' = Some (r\<lparr> transform := Some (toFullTransform tr) \<rparr>)) \<and>
         (\<exists>p' h' r'. withSnapshotProcessor this fromSnapshot toSnapshot h = Some (p', h') \<and>
            cells h p' = None \<and>
            internalOf h' this = Some r \<and> (\<forall>a. cells h a \<noteq> None \<longrightarrow> cells h' a = cells h a) \<and>
            internalOf h' p' = Some r' \<and>
            defaultFn r' = defaultFn r \<and> defaultValue r' = defaultValue r \<and>
            typeChecker r' = typeChecker r \<and> setter r' = setter r \<and> isId r' = isId r \<and>
            transform r' = transform r)"
proof -
  have builder: "\<And>r'. cells h (fst (newProp r' h)) = None \<and>
            internalOf (snd (newProp r' h)) this = Some r \<and>
            (\<forall>a. cells h a \<noteq> None \<longrightarrow> cells (snd (newProp r' h)) a = cells h a) \<and>
            internalOf (snd (newProp r' h)) (fst (newProp r' h)) = Some r'"
    using ok recv by (simp add: newProp_fresh newProp_frame internalOf_frame)
  have a: "\<exists>p' h'. withSetter this mode h = Some (p', h') \<and> cells h p' = None \<and>
            internalOf h' this = Some r \<and> (\<forall>a. cells h a \<noteq> None \<longrightarrow> cells h' a = cells h a) \<and>
            internalOf h' p' =
              Some (r\<lparr> setter := (case mode of None \<Rightarrow> SetterBool True | Some m \<Rightarrow> m) \<rparr>)"
    using recv builder[of "r\<lparr> setter := (case mode of None \<Rightarrow> SetterBool True | Some m \<Rightarrow> m) \<rparr>"]
    by (intro exI[of _ "fst (newProp (r\<lparr> setter := (case mode of None \<Rightarrow> SetterBool True | Some m \<Rightarrow> m) \<rparr>) h)"]
              exI[of _ "snd (newProp (r\<lparr> setter := (case mode of None \<Rightarrow> SetterBool True | Some m \<Rightarrow> m) \<rparr>) h)"])
       (auto simp add: withSetter_def internalOf_def split: option.splits cell.splits)
  have b: "\<exists>p' h'. withTransform this tr h = Some (p', h') \<and> cells h p' = None \<and>
            internalOf h' this = Some r \<and> (\<forall>a. cells h a \<noteq> None \<longrightarrow> cells h' a = cells h a) \<and>
            internalOf h' p' = Some (r\<lparr> transform := Some (toFullTransform tr) \<rparr>)"
    using recv builder[of "r\<lparr> transform := Some (toFullTransform tr) \<rparr>"]
    by (intro exI[of _ "fst (newProp (r\<lparr> transform := Some (toFullTransform tr) \<rparr>) h)"]
              exI[of _ "snd (newProp (r\<lparr> transform := Some (toFullTransform tr) \<rparr>) h)"])
       (simp add: withTransform_def)
  obtain r' where r': "withSnapshotProcessor this fromSnapshot toSnapshot h = Some (newProp r' h)"
      and same: "defaultFn r' = defaultFn r" "defaultValue r' = defaultValue r"
        "typeChecker r' = typeChecker r" "setter r' = setter r" "isId r' = isId r"
        "transform r' = transform r"
    using recv by (simp add: withSnapshotProcessor_def Let_def)
  have c: "\<exists>p' h' r'. withSnapshotProcessor this fromSnapshot toSnapshot h = Some (p', h') \<and>
            cells h p' = None \<and>
            internalOf h' this = Some r \<and> (\<forall>a. cells h a \<noteq> None \<longrightarrow> cells h' a = cells h a) \<and>
            internalOf h' p' = Some r' \<and>
            defaultFn r' = defaultFn r \<and> defaultValue r' = defaultValue r \<and>
            typeChecker r' = typeChecker r \<and> setter r' = setter r \<and> isId r' = isId r \<and>
            transform r' = transform r"
    using r' same builder[of r']
    by (intro exI[of _ "fst (newProp r' h)"] exI[of _ "snd (newProp r' h)"] exI[of _ r']) simp
  from a b c show ?thesis by blast
qed

theorem builders_leave_receiver_unchanged_witness:
  "heapOk (snd exPropTen) \<and> internalOf (snd exPropTen) (fst exPropTen) = Some exInternalTen \<and>
   (\<exists>p' h'. withSetter (fst exPropTen) None (snd exPropTen) = Some (p', h') \<and>
        cells (snd exPropTen) p' = None \<and>
        internalOf h' (fst exPropTen) = Some exInternalTen \<and>
        internalOf h' p' = Some (exInternalTen\<lparr> setter := SetterBool True \<rparr>)) \<and>
   (\<exists>p' h'. withTransform (fst exPropTen) () (snd exPropTen) = Some (p', h') \<and>
        internalOf h' (fst exPropTen) = Some exInternalTen) \<and>
   (\<exists>p' h'. withSnapshotProcessor (fst exPropTen) (Some addOne) None (snd exPropTen) = Some (p', h') \<and>
        internalOf h' (fst exPropTen) = Some exInternalTen)"
  using builders_leave_receiver_unchanged
          [OF exPropTen_heapOk exPropTen_internal, of None "()" "Some addOne" None]
        exPropTen_heapOk exPropTen_internal
  by (simp del: ex_simps) blast

text \<open>
  Claim C2, as amended.  After \<^verbatim>\<open>withSnapshotProcessor\<close> with \<open>f\<close> and then with \<open>g\<close>, the
  \<^verbatim>\<open>fromSnapshotProcessor\<close> of the result applies \<open>g\<close> first and \<open>f\<close> second (and then
  any processor the receiver already had): it maps \<open>sn\<close> to \<open>f (g sn)\<close>.  The
  \<^verbatim>\<open>toSnapshotProcessor\<close> runs in the mirror order, \<open>f\<close> first and \<open>g\<close> second: it maps
  \<open>sn\<close> to \<open>g (f sn)\<close>.  Either way the nested processors are one combined function.
\<close>

theorem withSnapshotProcessor_newest_first_on_the_way_in:
  assumes recv: "internalOf h this = Some r"
  shows "\<exists>p1 h1 p2 h2 r2.
           withSnapshotProcessor this (Some fFrom) (Some fTo) h = Some (p1, h1) \<and>
           withSnapshotProcessor p1 (Some gFrom) (Some gTo) h1 = Some (p2, h2) \<and>
           internalOf h2 p2 = Some r2 \<and>
           fromSnapshotProcessor r2 =
             Some (case fromSnapshotProcessor r of
                     None \<Rightarrow> (\<lambda>sn. fFrom (gFrom sn))
                   | Some e \<Rightarrow> (\<lambda>sn. e (fFrom (gFrom sn)))) \<and>
           toSnapshotProcessor r2 =
             Some (case toSnapshotProcessor r of
                     None \<Rightarrow> (\<lambda>sn. gTo (fTo sn))
                   | Some e \<Rightarrow> (\<lambda>sn. gTo (fTo (e sn))))"
proof -
  define r1 where "r1 = r\<lparr> fromSnapshotProcessor :=
                            (case fromSnapshotProcessor r of None \<Rightarrow> Some fFrom
                             | Some e \<Rightarrow> Some (\<lambda>sn. e (fFrom sn))),
                          toSnapshotProcessor :=
                            (case toSnapshotProcessor r of None \<Rightarrow> Some fTo
                             | Some e \<Rightarrow> Some (\<lambda>sn. fTo (e sn))) \<rparr>"
  have s1: "withSnapshotProcessor this (Some fFrom) (Some fTo) h = Some (newProp r1 h)"
    using recv by (simp add: withSnapshotProcessor_def r1_def split: option.splits)
  obtain p1 h1 where ph1: "newProp r1 h = (p1, h1)" by (cases "newProp r1 h")
  have i1: "internalOf h1 p1 = Some r1"
    using internalOf_newProp[of r1 h] ph1 by simp
  define r2 where "r2 = r1\<lparr> fromSnapshotProcessor :=
                            (case fromSnapshotProcessor r1 of None \<Rightarrow> Some gFrom
                             | Some e \<Rightarrow> Some (\<lambda>sn. e (gFrom sn))),
                          toSnapshotProcessor :=
                            (case toSnapshotProcessor r1 of None \<Rightarrow> Some gTo
                             | Some e \<Rightarrow> Some (\<lambda>sn. gTo (e sn))) \<rparr>"
  have s2: "withSnapshotProcessor p1 (Some gFrom) (Some gTo) h1 = Some (newProp r2 h1)"
    using i1 by (simp add: withSnapshotProcessor_def r2_def split: option.splits)
  obtain p2 h2 where ph2: "newProp r2 h1 = (p2, h2)" by (cases "newProp r2 h1")
  have i2: "internalOf h2 p2 = Some r2"
    using internalOf_newProp[of r2 h1] ph2 by simp
  have f: "fromSnapshotProcessor r2 =
             Some (case fromSnapshotProcessor r of
                     None \<Rightarrow> (\<lambda>sn. fFrom (gFrom sn))
                   | Some e \<Rightarrow> (\<lambda>sn. e (fFrom (gFrom sn))))"
    by (simp add: r2_def r1_def split: option.splits)
  have t: "toSnapshotProcessor r2 =
             Some (case toSnapshotProcessor r of
                     None \<Rightarrow> (\<lambda>sn. gTo (fTo sn))
                   | Some e \<Rightarrow> (\<lambda>sn. gTo (fTo (e sn))))"
    by (simp add: r2_def r1_def split: option.splits)
  from s1 ph1 s2 ph2 i2 f t show ?thesis by auto
qed

theorem withSnapshotProcessor_newest_first_witness:
  "internalOf (snd exPropPlain) (fst exPropPlain) \<noteq> None \<and>
   (\<exists>p1 h1 p2 h2 r2.
      withSnapshotProcessor (fst exPropPlain) (Some addOne) (Some addOne) (snd exPropPlain) = Some (p1, h1) \<and>
      withSnapshotProcessor p1 (Some double) (Some double) h1 = Some (p2, h2) \<and>
      internalOf h2 p2 = Some r2 \<and>
      fromSnapshotProcessor r2 = Some (\<lambda>sn. addOne (double sn)) \<and>
      toSnapshotProcessor r2 = Some (\<lambda>sn. double (addOne sn)))"
  using withSnapshotProcessor_newest_first_on_the_way_in
          [OF exPropPlain_internal, of addOne addOne double double]
        exPropPlain_internal
  by simp

text \<open>
  Claim C2 as the spec states it fails: with \<open>f = addOne\<close> and \<open>g = double\<close> the combined
  \<^verbatim>\<open>fromSnapshotProcessor\<close> maps 3 to \<open>f (g 3) = 7\<close>, not to \<open>g (f 3) = 8\<close>, and the combined
  \<^verbatim>\<open>toSnapshotProcessor\<close> maps 3 to \<open>g (f 3) = 8\<close>, not to \<open>f (g 3) = 7\<close>.
\<close>

theorem withSnapshotProcessor_order_counterexample:
  "runFromSnapshot (snd exComposed) (fst exComposed) 3 = Some 7 \<and> double (addOne 3) = 8 \<and>
   runToSnapshot (snd exComposed) (fst exComposed) 3 = Some 8 \<and> addOne (double 3) = 7"
  by (simp add: exComposed_def exPropPlain_def propFn_def withSnapshotProcessor_def newProp_def
        alloc_def internalOf_def emptyHeap_def runFromSnapshot_def runToSnapshot_def
        addOne_def double_def Let_def)

section \<open>Type checkers: cached check results\<close>

lemma getCachedResult_setCachedResult_same:
  "TypeChecker_getCachedResult t obj (TypeChecker_setCachedResult t obj r st) = Some r"
  by (simp add: TypeChecker_getCachedResult_def TypeChecker_setCachedResult_def
        TypeChecker_createCacheIfNeeded_def getOrCreate_def Let_def split: option.splits)

lemma getCachedResult_setCachedResult_other:
  "(t', obj') \<noteq> (t, obj) \<Longrightarrow>
   TypeChecker_getCachedResult t' obj' (TypeChecker_setCachedResult t obj r st) =
   TypeChecker_getCachedResult t' obj' st"
  by (auto simp add: TypeChecker_getCachedResult_def TypeChecker_setCachedResult_def
        TypeChecker_createCacheIfNeeded_def getOrCreate_def Let_def split: option.splits)

lemma tweakedObjects_setCachedResult:
  "tweakedObjects (TypeChecker_setCachedResult t obj r st) = tweakedObjects st"
  by (simp add: TypeChecker_setCachedResult_def
        TypeChecker_createCacheIfNeeded_def getOrCreate_def Let_def split: option.splits)

lemma check_hit:
  assumes "\<not> unchecked tc" "a \<in> tweakedObjects st"
    "TypeChecker_getCachedResult (tcId tc) a st = Some cached"
  shows "TypeChecker_check tc (Obj a) pth st = (Inr (withPathPrefix pth cached), st)"
  using assms by (simp add: TypeChecker_check_def)

lemma check_miss:
  assumes "\<not> unchecked tc" "raw_check tc = Some chk" "a \<in> tweakedObjects st"
    "TypeChecker_getCachedResult (tcId tc) a st = None" "chk (Obj a) emptyPath st = (r, st1)"
  shows "TypeChecker_check tc (Obj a) pth st =
           (Inr (withPathPrefix pth r), TypeChecker_setCachedResult (tcId tc) a r st1)"
  using assms by (simp add: TypeChecker_check_def callCheck_def)

lemma exChecker0_facts:
  "\<not> unchecked (fst exChecker0)" "raw_check (fst exChecker0) = Some exCheck"
  "tcId (fst exChecker0) = 0"
  "1 \<in> tweakedObjects (snd exChecker0)"
  "TypeChecker_getCachedResult (tcId (fst exChecker0)) 1 (snd exChecker0) = None"
  "toSnapshotProcessorCache (snd exChecker0) 0 2 = None"
  "raw_toSnapshotProcessor (fst exChecker0) = exProcessor"
  by (simp_all add: exChecker0_def TypeChecker_new_def exTree_def emptyState_def
        TypeChecker_getCachedResult_def)

text \<open>
  Claim C3.  For a checked type checker and a tracked node: on a cache hit \<^verbatim>\<open>check\<close> returns
  the cached result under the path of the call (\<^verbatim>\<open>null\<close> for a cached \<^verbatim>\<open>null\<close>, otherwise an
  error whose path is the path of the call followed by the cached path, with the cached
  expected type name and actual value) and leaves the state as it is, so the validation function
  does not run.  On a miss the validation function runs once, with the empty path; its result is
  stored under this checker and this node and under no other pair, and every later \<^verbatim>\<open>check\<close>
  of the node by this checker is a hit, whatever its path, as long as the node is tracked.
\<close>

theorem check_validates_once_per_node:
  assumes checked: "\<not> unchecked tc" and fn: "raw_check tc = Some chk"
    and tracked: "a \<in> tweakedObjects st"
  shows "(\<forall>cached. TypeChecker_getCachedResult (tcId tc) a st = Some cached \<longrightarrow>
            TypeChecker_check tc (Obj a) pth st = (Inr (withPathPrefix pth cached), st)) \<and>
         (TypeChecker_getCachedResult (tcId tc) a st = None \<longrightarrow>
            (\<exists>r st1 st2.
               chk (Obj a) emptyPath st = (r, st1) \<and>
               st2 = TypeChecker_setCachedResult (tcId tc) a r st1 \<and>
               TypeChecker_check tc (Obj a) pth st = (Inr (withPathPrefix pth r), st2) \<and>
               TypeChecker_getCachedResult (tcId tc) a st2 = Some r \<and>
               (\<forall>t' a'. (t', a') \<noteq> (tcId tc, a) \<longrightarrow>
                  TypeChecker_getCachedResult t' a' st2 = TypeChecker_getCachedResult t' a' st1) \<and>
               (a \<in> tweakedObjects st1 \<longrightarrow>
                  (\<forall>pth'. TypeChecker_check tc (Obj a) pth' st2 = (Inr (withPathPrefix pth' r), st2))))) \<and>
         withPathPrefix pth None = None \<and>
         (\<forall>cachedPath expected actual.
            withPathPrefix pth (Some (TypeCheckError cachedPath expected actual)) =
              Some (TypeCheckError (pth @ cachedPath) expected actual))"
proof -
  have hit: "\<forall>cached. TypeChecker_getCachedResult (tcId tc) a st = Some cached \<longrightarrow>
            TypeChecker_check tc (Obj a) pth st = (Inr (withPathPrefix pth cached), st)"
    using check_hit[OF checked tracked] by blast
  have miss: "\<exists>r st1 st2.
               chk (Obj a) emptyPath st = (r, st1) \<and>
               st2 = TypeChecker_setCachedResult (tcId tc) a r st1 \<and>
               TypeChecker_check tc (Obj a) pth st = (Inr (withPathPrefix pth r), st2) \<and>
               TypeChecker_getCachedResult (tcId tc) a st2 = Some r \<and>
               (\<forall>t' a'. (t', a') \<noteq> (tcId tc, a) \<longrightarrow>
                  TypeChecker_getCachedResult t' a' st2 = TypeChecker_getCachedResult t' a' st1) \<and>
               (a \<in> tweakedObjects st1 \<longrightarrow>
                  (\<forall>pth'. TypeChecker_check tc (Obj a) pth' st2 = (Inr (withPathPrefix pth' r), st2)))"
    if none: "TypeChecker_getCachedResult (tcId tc) a st = None"
  proof -
    obtain r st1 where run: "chk (Obj a) emptyPath st = (r, st1)"
      by (cases "chk (Obj a) emptyPath st")
    define st2 where "st2 = TypeChecker_setCachedResult (tcId tc) a r st1"
    have first: "TypeChecker_check tc (Obj a) pth st = (Inr (withPathPrefix pth r), st2)"
      unfolding st2_def by (rule check_miss[OF checked fn tracked none run])
    have cached: "TypeChecker_getCachedResult (tcId tc) a st2 = Some r"
      unfolding st2_def by (rule getCachedResult_setCachedResult_same)
    have others: "\<forall>t' a'. (t', a') \<noteq> (tcId tc, a) \<longrightarrow>
                  TypeChecker_getCachedResult t' a' st2 = TypeChecker_getCachedResult t' a' st1"
      unfolding st2_def using getCachedResult_setCachedResult_other by blast
    have again: "\<forall>pth'. TypeChecker_check tc (Obj a) pth' st2 = (Inr (withPathPrefix pth' r), st2)"
      if "a \<in> tweakedObjects st1"
    proof -
      have "a \<in> tweakedObjects st2"
        unfolding st2_def using that by (simp add: tweakedObjects_setCachedResult)
      then show ?thesis using check_hit[OF checked _ cached] by blast
    qed
    from run first cached others again show ?thesis
      using st2_def by blast
  qed
  show ?thesis using hit miss by simp
qed

theorem check_validates_once_per_node_witness:
  "\<not> unchecked (fst exChecker0) \<and> raw_check (fst exChecker0) = Some exCheck \<and>
   1 \<in> tweakedObjects (snd exChecker0) \<and>
   TypeChecker_getCachedResult (tcId (fst exChecker0)) 1 (snd exChecker0) = None \<and>
   (\<exists>st2. TypeChecker_check (fst exChecker0) (Obj 1) [KeyNum 0] (snd exChecker0) =
             (Inr (Some (TypeCheckError [KeyNum 0] ''number'' (Obj 1))), st2) \<and>
          TypeChecker_getCachedResult (tcId (fst exChecker0)) 1 st2 =
             Some (Some (TypeCheckError [] ''number'' (Obj 1))) \<and>
          TypeChecker_check (fst exChecker0) (Obj 1) [KeyStr ''x''] st2 =
             (Inr (Some (TypeCheckError [KeyStr ''x''] ''number'' (Obj 1))), st2))"
proof -
  note inst = check_validates_once_per_node
                [OF exChecker0_facts(1) exChecker0_facts(2) exChecker0_facts(4), of "[KeyNum 0]"]
  have none: "TypeChecker_getCachedResult (tcId (fst exChecker0)) 1 (snd exChecker0) = None"
    by (rule exChecker0_facts(5))
  from inst none obtain r st1 st2 where
    run: "exCheck (Obj 1) emptyPath (snd exChecker0) = (r, st1)" and
    first: "TypeChecker_check (fst exChecker0) (Obj 1) [KeyNum 0] (snd exChecker0) =
              (Inr (withPathPrefix [KeyNum 0] r), st2)" and
    cached: "TypeChecker_getCachedResult (tcId (fst exChecker0)) 1 st2 = Some r" and
    again: "1 \<in> tweakedObjects st1 \<longrightarrow>
              (\<forall>pth'. TypeChecker_check (fst exChecker0) (Obj 1) pth' st2 =
                        (Inr (withPathPrefix pth' r), st2))"
    by blast
  from run have r: "r = Some (TypeCheckError [] ''number'' (Obj 1))" and st1: "st1 = snd exChecker0"
    by (simp_all add: exCheck_def emptyPath_def)
  have "TypeChecker_check (fst exChecker0) (Obj 1) [KeyStr ''x''] st2 =
          (Inr (withPathPrefix [KeyStr ''x''] r), st2)"
    using again st1 exChecker0_facts(4) by simp
  then show ?thesis
    using first cached r none exChecker0_facts by auto
qed

text \<open>
  Claim C8.  A type checker constructed with \<^verbatim>\<open>null\<close> as its validation function is
  unchecked: \<^verbatim>\<open>check\<close> returns \<^verbatim>\<open>null\<close> for every value and every path, in every state, and
  changes nothing.
\<close>

theorem unchecked_checker_always_passes:
  "TypeChecker_check (fst (TypeChecker_new bt None fromSP toSP st0)) v pth st = (Inr None, st)"
  by (simp add: TypeChecker_new_def TypeChecker_check_def Let_def)

theorem unchecked_checker_always_passes_witness:
  "unchecked (fst exUnchecked) \<and>
   TypeChecker_check (fst exUnchecked) (Obj 1) [KeyNum 0] (snd exUnchecked) = (Inr None, snd exUnchecked) \<and>
   TypeChecker_check (fst exUnchecked) (Str ''a'') [] exTree = (Inr None, exTree)"
proof -
  have u: "unchecked (fst exUnchecked)"
    by (simp add: exUnchecked_def TypeChecker_new_def Let_def)
  have a: "TypeChecker_check (fst exUnchecked) (Obj 1) [KeyNum 0] (snd exUnchecked) = (Inr None, snd exUnchecked)"
    unfolding exUnchecked_def by (rule unchecked_checker_always_passes)
  have b: "TypeChecker_check (fst exUnchecked) (Str ''a'') [] exTree = (Inr None, exTree)"
    unfolding exUnchecked_def by (rule unchecked_checker_always_passes)
  from u a b show ?thesis by simp
qed

section \<open>Type checkers: snapshot processors\<close>

lemma toSnapshotProcessor_hit:
  "toSnapshotProcessorCache st (tcId tc) a = Some cached \<Longrightarrow>
   TypeChecker_toSnapshotProcessor tc (Obj a) st = (cached, st)"
  by (simp add: TypeChecker_toSnapshotProcessor_def)

lemma toSnapshotProcessor_miss:
  assumes "toSnapshotProcessorCache st (tcId tc) a = None"
    and "raw_toSnapshotProcessor tc (Obj a) st = (v, st1)"
  shows "\<exists>st2 tcs. TypeChecker_toSnapshotProcessor tc (Obj a) st = (v, st2) \<and>
           toSnapshotProcessorCache st2 (tcId tc) a = Some v \<and>
           typeCheckersWithCachedSnapshotProcessorResultsOfObject st2 a = Some tcs \<and>
           tcId tc \<in> set tcs"
  using assms
  by (auto simp add: TypeChecker_toSnapshotProcessor_def getOrCreate_def setAdd_def Let_def
        split: option.splits)

lemma toSnapshotProcessor_not_object:
  "(\<And>a. sn \<noteq> Obj a) \<Longrightarrow> TypeChecker_toSnapshotProcessor tc sn st = raw_toSnapshotProcessor tc sn st"
  by (cases sn) (auto simp add: TypeChecker_toSnapshotProcessor_def)

lemma foldl_invalidateSP_cache:
  "toSnapshotProcessorCache
     (foldl (\<lambda>s t. TypeChecker_invalidateSnapshotProcessorCachedResult t obj s) st tcs) c a =
   (if a = obj \<and> c \<in> set tcs then None else toSnapshotProcessorCache st c a)"
  by (induction tcs arbitrary: st)
     (auto simp add: TypeChecker_invalidateSnapshotProcessorCachedResult_def)

lemma foldl_invalidateSP_registry:
  "typeCheckersWithCachedSnapshotProcessorResultsOfObject
     (foldl (\<lambda>s t. TypeChecker_invalidateSnapshotProcessorCachedResult t obj s) st tcs) =
   typeCheckersWithCachedSnapshotProcessorResultsOfObject st"
  by (induction tcs arbitrary: st)
     (auto simp add: TypeChecker_invalidateSnapshotProcessorCachedResult_def)

lemma invalidateSP_listeners:
  assumes "typeCheckersWithCachedSnapshotProcessorResultsOfObject st obj = Some tcs"
  shows "typeCheckersWithCachedSnapshotProcessorResultsOfObject
           (invalidateCachedToSnapshotProcessorResult obj st) obj = None"
    and "c \<in> set tcs \<Longrightarrow>
           toSnapshotProcessorCache (invalidateCachedToSnapshotProcessorResult obj st) c obj = None"
  using assms
  by (simp_all add: invalidateCachedToSnapshotProcessorResult_def Let_def
        foldl_invalidateSP_cache foldl_invalidateSP_registry)

text \<open>
  Claim C7.  \<^verbatim>\<open>fromSnapshotProcessor\<close> is the underlying processor, run at every call.
  \<^verbatim>\<open>toSnapshotProcessor\<close> runs the underlying processor on an input that is not an object and
  stores nothing; on an object input it returns a cached output without running the processor
  and without changing the state; on a miss it runs the processor, stores the output under the
  object and registers the checker as a listener of the object, so that a second call returns
  the same output from the cache.  \<^verbatim>\<open>invalidateCachedToSnapshotProcessorResult\<close> deletes the
  cached output of every registered checker for the object, and the registry entry.
\<close>

theorem snapshot_processor_caching:
  "TypeChecker_fromSnapshotProcessor tc sn st = raw_fromSnapshotProcessor tc sn st \<and>
   ((\<forall>a. sn \<noteq> Obj a) \<longrightarrow>
      TypeChecker_toSnapshotProcessor tc sn st = raw_toSnapshotProcessor tc sn st) \<and>
   (\<forall>cached. toSnapshotProcessorCache st (tcId tc) a = Some cached \<longrightarrow>
      TypeChecker_toSnapshotProcessor tc (Obj a) st = (cached, st)) \<and>
   (toSnapshotProcessorCache st (tcId tc) a = None \<longrightarrow>
      (\<exists>v st1 st2 tcs.
         raw_toSnapshotProcessor tc (Obj a) st = (v, st1) \<and>
         TypeChecker_toSnapshotProcessor tc (Obj a) st = (v, st2) \<and>
         toSnapshotProcessorCache st2 (tcId tc) a = Some v \<and>
         TypeChecker_toSnapshotProcessor tc (Obj a) st2 = (v, st2) \<and>
         typeCheckersWithCachedSnapshotProcessorResultsOfObject st2 a = Some tcs \<and>
         tcId tc \<in> set tcs \<and>
         toSnapshotProcessorCache (invalidateCachedToSnapshotProcessorResult a st2) (tcId tc) a = None)) \<and>
   (\<forall>tcs. typeCheckersWithCachedSnapshotProcessorResultsOfObject st a = Some tcs \<longrightarrow>
      typeCheckersWithCachedSnapshotProcessorResultsOfObject
        (invalidateCachedToSnapshotProcessorResult a st) a = None \<and>
      (\<forall>c \<in> set tcs.
         toSnapshotProcessorCache (invalidateCachedToSnapshotProcessorResult a st) c a = None))"
proof -
  have miss: "\<exists>v st1 st2 tcs.
         raw_toSnapshotProcessor tc (Obj a) st = (v, st1) \<and>
         TypeChecker_toSnapshotProcessor tc (Obj a) st = (v, st2) \<and>
         toSnapshotProcessorCache st2 (tcId tc) a = Some v \<and>
         TypeChecker_toSnapshotProcessor tc (Obj a) st2 = (v, st2) \<and>
         typeCheckersWithCachedSnapshotProcessorResultsOfObject st2 a = Some tcs \<and>
         tcId tc \<in> set tcs \<and>
         toSnapshotProcessorCache (invalidateCachedToSnapshotProcessorResult a st2) (tcId tc) a = None"
    if none: "toSnapshotProcessorCache st (tcId tc) a = None"
  proof -
    obtain v st1 where run: "raw_toSnapshotProcessor tc (Obj a) st = (v, st1)"
      by (cases "raw_toSnapshotProcessor tc (Obj a) st")
    from toSnapshotProcessor_miss[OF none run] obtain st2 tcs where
      first: "TypeChecker_toSnapshotProcessor tc (Obj a) st = (v, st2)" and
      cached: "toSnapshotProcessorCache st2 (tcId tc) a = Some v" and
      reg: "typeCheckersWithCachedSnapshotProcessorResultsOfObject st2 a = Some tcs" and
      mem: "tcId tc \<in> set tcs"
      by blast
    have again: "TypeChecker_toSnapshotProcessor tc (Obj a) st2 = (v, st2)"
      by (rule toSnapshotProcessor_hit[OF cached])
    have gone: "toSnapshotProcessorCache (invalidateCachedToSnapshotProcessorResult a st2) (tcId tc) a = None"
      by (rule invalidateSP_listeners(2)[OF reg mem])
    from run first cached again reg mem gone show ?thesis by blast
  qed
  show ?thesis
    using miss toSnapshotProcessor_hit toSnapshotProcessor_not_object invalidateSP_listeners
    by (simp add: TypeChecker_fromSnapshotProcessor_def)
qed

theorem snapshot_processor_caching_witness:
  "toSnapshotProcessorCache (snd exChecker0) (tcId (fst exChecker0)) 2 = None \<and>
   (\<exists>st2. TypeChecker_toSnapshotProcessor (fst exChecker0) (Obj 2) (snd exChecker0) = (Obj 2, st2) \<and>
      toSnapshotProcessorCache st2 (tcId (fst exChecker0)) 2 = Some (Obj 2) \<and>
      TypeChecker_toSnapshotProcessor (fst exChecker0) (Obj 2) st2 = (Obj 2, st2) \<and>
      toSnapshotProcessorCache (invalidateCachedToSnapshotProcessorResult 2 st2)
        (tcId (fst exChecker0)) 2 = None) \<and>
   TypeChecker_toSnapshotProcessor (fst exChecker0) (Str ''s'') (snd exChecker0) =
     (Str ''s'', snd exChecker0)"
proof -
  note inst = snapshot_processor_caching
                [where tc = "fst exChecker0" and sn = "Str ''s''" and st = "snd exChecker0" and a = 2]
  have none: "toSnapshotProcessorCache (snd exChecker0) (tcId (fst exChecker0)) 2 = None"
    by (simp add: exChecker0_facts)
  from inst none obtain v st1 st2 where
    run: "raw_toSnapshotProcessor (fst exChecker0) (Obj 2) (snd exChecker0) = (v, st1)" and
    first: "TypeChecker_toSnapshotProcessor (fst exChecker0) (Obj 2) (snd exChecker0) = (v, st2)" and
    cached: "toSnapshotProcessorCache st2 (tcId (fst exChecker0)) 2 = Some v" and
    again: "TypeChecker_toSnapshotProcessor (fst exChecker0) (Obj 2) st2 = (v, st2)" and
    gone: "toSnapshotProcessorCache (invalidateCachedToSnapshotProcessorResult 2 st2)
             (tcId (fst exChecker0)) 2 = None"
    by blast
  from run have v: "v = Obj 2"
    by (simp add: exChecker0_facts exProcessor_def)
  from inst have prim: "TypeChecker_toSnapshotProcessor (fst exChecker0) (Str ''s'') (snd exChecker0) =
                          raw_toSnapshotProcessor (fst exChecker0) (Str ''s'') (snd exChecker0)"
    by simp
  show ?thesis
    using none first cached again gone v prim
    by (auto simp add: exChecker0_facts exProcessor_def)
qed

section \<open>Type checkers: invalidation of cached check results\<close>

lemma getCachedResult_invalidateCachedResult:
  "TypeChecker_getCachedResult c a (TypeChecker_invalidateCachedResult t obj st) =
     (if a = obj \<and> c = t then None else TypeChecker_getCachedResult c a st)"
  by (auto simp add: TypeChecker_getCachedResult_def TypeChecker_invalidateCachedResult_def
        split: option.splits)

lemma foldl_invalidate_getCachedResult:
  "TypeChecker_getCachedResult c a
     (foldl (\<lambda>s t. TypeChecker_invalidateCachedResult t obj s) st tcs) =
     (if a = obj \<and> c \<in> set tcs then None else TypeChecker_getCachedResult c a st)"
  by (induction tcs arbitrary: st) (auto simp add: getCachedResult_invalidateCachedResult)

lemma foldl_invalidate_frame:
  "typeCheckersWithCachedResultsOfObject
     (foldl (\<lambda>s t. TypeChecker_invalidateCachedResult t obj s) st tcs) =
     typeCheckersWithCachedResultsOfObject st \<and>
   objectParents (foldl (\<lambda>s t. TypeChecker_invalidateCachedResult t obj s) st tcs) =
     objectParents st"
  by (induction tcs arbitrary: st)
     (auto simp add: TypeChecker_invalidateCachedResult_def split: option.splits)

lemma invalidateCurrent_objectParents:
  "objectParents (invalidateCurrent c st) = objectParents st"
  by (simp add: invalidateCurrent_def Let_def foldl_invalidate_frame split: option.splits)

lemma invalidateCurrent_registry:
  "typeCheckersWithCachedResultsOfObject (invalidateCurrent c st) obj =
     (if obj = c then None else typeCheckersWithCachedResultsOfObject st obj)"
  by (simp add: invalidateCurrent_def Let_def foldl_invalidate_frame split: option.splits)

lemma invalidateCurrent_getCachedResult:
  "TypeChecker_getCachedResult t obj (invalidateCurrent c st) =
     (if obj = c \<and> (\<exists>tcs. typeCheckersWithCachedResultsOfObject st c = Some tcs \<and> t \<in> set tcs)
      then None else TypeChecker_getCachedResult t obj st)"
proof (cases "typeCheckersWithCachedResultsOfObject st c")
  case None
  then show ?thesis by (simp add: invalidateCurrent_def)
next
  case (Some tcs)
  have "TypeChecker_getCachedResult t obj (invalidateCurrent c st) =
          TypeChecker_getCachedResult t obj
            (foldl (\<lambda>s typeChecker. TypeChecker_invalidateCachedResult typeChecker c s) st tcs)"
    using Some by (simp add: invalidateCurrent_def Let_def TypeChecker_getCachedResult_def)
  then show ?thesis using Some by (simp add: foldl_invalidate_getCachedResult)
qed

lemma ancestors_objectParents:
  "objectParents st' = objectParents st \<Longrightarrow> ancestors n st' a = ancestors n st a"
  by (induction n arbitrary: a)
     (auto simp add: fastGetParentIncludingDataObjects_def split: option.splits ParentPath.splits)

lemma invalidateLoop_chain:
  "ancestors n st c = Some chain \<Longrightarrow>
   \<exists>st'. invalidateLoop (Some c) st = Some st' \<and>
         objectParents st' = objectParents st \<and>
         (\<forall>obj. typeCheckersWithCachedResultsOfObject st' obj =
                  (if obj \<in> set chain then None else typeCheckersWithCachedResultsOfObject st obj)) \<and>
         (\<forall>t obj. TypeChecker_getCachedResult t obj st' =
                  (if obj \<in> set chain \<and>
                      (\<exists>tcs. typeCheckersWithCachedResultsOfObject st obj = Some tcs \<and> t \<in> set tcs)
                   then None else TypeChecker_getCachedResult t obj st))"
proof (induction n arbitrary: st c chain)
  case 0
  then show ?case by simp
next
  case (Suc n)
  let ?st1 = "invalidateCurrent c st"
  have par: "fastGetParentIncludingDataObjects ?st1 c = fastGetParentIncludingDataObjects st c"
    by (simp add: fastGetParentIncludingDataObjects_def invalidateCurrent_objectParents)
  show ?case
  proof (cases "fastGetParentIncludingDataObjects st c")
    case None
    with Suc.prems have chain: "chain = [c]" by simp
    have "invalidateLoop (Some c) st = Some ?st1"
      using None par by (subst invalidateLoop.simps) (simp add: invalidateLoop.simps[of None])
    then show ?thesis
      using chain
      by (auto simp add: invalidateCurrent_objectParents invalidateCurrent_registry
            invalidateCurrent_getCachedResult)
  next
    case (Some p)
    with Suc.prems obtain ps where ps: "ancestors n st p = Some ps" and chain: "chain = c # ps"
      by (auto split: option.splits)
    have "ancestors n ?st1 p = Some ps"
      using ps by (simp add: ancestors_objectParents[OF invalidateCurrent_objectParents])
    from Suc.IH[OF this] obtain st' where
      loop: "invalidateLoop (Some p) ?st1 = Some st'" and
      op: "objectParents st' = objectParents ?st1" and
      reg: "\<forall>obj. typeCheckersWithCachedResultsOfObject st' obj =
                  (if obj \<in> set ps then None else typeCheckersWithCachedResultsOfObject ?st1 obj)" and
      cache: "\<forall>t obj. TypeChecker_getCachedResult t obj st' =
                  (if obj \<in> set ps \<and>
                      (\<exists>tcs. typeCheckersWithCachedResultsOfObject ?st1 obj = Some tcs \<and> t \<in> set tcs)
                   then None else TypeChecker_getCachedResult t obj ?st1)"
      by blast
    have "invalidateLoop (Some c) st = Some st'"
      using Some par loop by (subst invalidateLoop.simps) simp
    moreover have "objectParents st' = objectParents st"
      using op by (simp add: invalidateCurrent_objectParents)
    moreover have "\<forall>obj. typeCheckersWithCachedResultsOfObject st' obj =
                  (if obj \<in> set chain then None else typeCheckersWithCachedResultsOfObject st obj)"
      using reg chain by (simp add: invalidateCurrent_registry)
    moreover have "\<forall>t obj. TypeChecker_getCachedResult t obj st' =
                  (if obj \<in> set chain \<and>
                      (\<exists>tcs. typeCheckersWithCachedResultsOfObject st obj = Some tcs \<and> t \<in> set tcs)
                   then None else TypeChecker_getCachedResult t obj st)"
      using cache chain
      by (auto simp add: invalidateCurrent_registry invalidateCurrent_getCachedResult)
    ultimately show ?thesis by blast
  qed
qed

lemma setCachedResult_registry:
  "typeCheckersWithCachedResultsOfObject (TypeChecker_setCachedResult t obj r st) obj' =
     (if obj' = obj
      then Some (setAdd t (case typeCheckersWithCachedResultsOfObject st obj of
                             None \<Rightarrow> [] | Some tcs \<Rightarrow> tcs))
      else typeCheckersWithCachedResultsOfObject st obj')"
  by (simp add: TypeChecker_setCachedResult_def TypeChecker_createCacheIfNeeded_def
        getOrCreate_def Let_def split: option.splits)

lemma setCachedResult_objectParents:
  "objectParents (TypeChecker_setCachedResult t obj r st) = objectParents st"
  by (simp add: TypeChecker_setCachedResult_def TypeChecker_createCacheIfNeeded_def
        getOrCreate_def Let_def split: option.splits)

lemma setCachedResult_keeps_listeners_complete:
  assumes "\<forall>t a. TypeChecker_getCachedResult t a st \<noteq> None \<longrightarrow>
             (\<exists>tcs. typeCheckersWithCachedResultsOfObject st a = Some tcs \<and> t \<in> set tcs)"
  shows "\<forall>t' a. TypeChecker_getCachedResult t' a (TypeChecker_setCachedResult t obj r st) \<noteq> None \<longrightarrow>
             (\<exists>tcs. typeCheckersWithCachedResultsOfObject (TypeChecker_setCachedResult t obj r st) a = Some tcs \<and>
                    t' \<in> set tcs)"
proof (intro allI impI)
  fix t' a
  assume cached: "TypeChecker_getCachedResult t' a (TypeChecker_setCachedResult t obj r st) \<noteq> None"
  show "\<exists>tcs. typeCheckersWithCachedResultsOfObject (TypeChecker_setCachedResult t obj r st) a = Some tcs \<and>
              t' \<in> set tcs"
  proof (cases "(t', a) = (t, obj)")
    case True
    then show ?thesis by (simp add: setCachedResult_registry setAdd_def)
  next
    case False
    then have "TypeChecker_getCachedResult t' a st \<noteq> None"
      using cached by (simp add: getCachedResult_setCachedResult_other)
    with assms obtain tcs where "typeCheckersWithCachedResultsOfObject st a = Some tcs" "t' \<in> set tcs"
      by blast
    then show ?thesis by (auto simp add: setCachedResult_registry setAdd_def)
  qed
qed

lemma emptyState_listeners_complete:
  "\<forall>t a. TypeChecker_getCachedResult t a emptyState = None"
  by (simp add: TypeChecker_getCachedResult_def emptyState_def)

lemma exCached_facts:
  "ancestors 2 exCached 1 = Some [1, 0]"
  "typeCheckersWithCachedResultsOfObject exCached 1 = Some [0, 1]"
  "typeCheckersWithCachedResultsOfObject exCached 0 = Some [0]"
  "TypeChecker_getCachedResult 1 1 exCached = Some None"
  by (simp_all add: exCached_def setCachedResult_registry setCachedResult_objectParents
        getCachedResult_setCachedResult_same getCachedResult_setCachedResult_other
        numeral_2_eq_2 fastGetParentIncludingDataObjects_def setAdd_def
        exChecker1_def exChecker0_def TypeChecker_new_def exTree_def emptyState_def Let_def)

lemma exCached_listeners_complete:
  "TypeChecker_getCachedResult t a exCached \<noteq> None \<longrightarrow>
     (\<exists>tcs. typeCheckersWithCachedResultsOfObject exCached a = Some tcs \<and> t \<in> set tcs)"
proof -
  have e: "\<forall>t a. TypeChecker_getCachedResult t a (snd exChecker1) \<noteq> None \<longrightarrow>
             (\<exists>tcs. typeCheckersWithCachedResultsOfObject (snd exChecker1) a = Some tcs \<and> t \<in> set tcs)"
    by (simp add: exChecker1_def exChecker0_def TypeChecker_new_def exTree_def emptyState_def
          Let_def TypeChecker_getCachedResult_def)
  show ?thesis
    unfolding exCached_def
    using setCachedResult_keeps_listeners_complete
            [OF setCachedResult_keeps_listeners_complete
                  [OF setCachedResult_keeps_listeners_complete[OF e]]]
    by blast
qed

text \<open>
  Claim C4.  When the parent links lead from \<open>obj\<close> to a root, with \<open>chain\<close> the objects on
  the way (\<open>obj\<close> first, the root last), \<^verbatim>\<open>invalidateCachedTypeCheckerResult\<close> returns, and in
  the state it returns: every object of the chain has lost its entry in the listener registry,
  and every type checker that was registered for an object of the chain (all of them, not one)
  has lost its cached result for that object.  Every checker that caches a result registers
  itself (\<open>setCachedResult_keeps_listeners_complete\<close>), so when the registry holds all the
  checkers with a cached result, no checker has a cached result left for any object of the chain.
  Cached results for objects outside the chain are kept.
\<close>

theorem invalidation_reaches_every_listener_up_to_the_root:
  assumes chain: "ancestors n st obj = Some chain"
  shows "\<exists>st'. invalidateCachedTypeCheckerResult obj st = Some st' \<and>
           obj \<in> set chain \<and>
           (\<forall>a \<in> set chain.
              typeCheckersWithCachedResultsOfObject st' a = None \<and>
              (\<forall>tcs. typeCheckersWithCachedResultsOfObject st a = Some tcs \<longrightarrow>
                 (\<forall>t \<in> set tcs. TypeChecker_getCachedResult t a st' = None))) \<and>
           ((\<forall>t a. TypeChecker_getCachedResult t a st \<noteq> None \<longrightarrow>
                (\<exists>tcs. typeCheckersWithCachedResultsOfObject st a = Some tcs \<and> t \<in> set tcs)) \<longrightarrow>
              (\<forall>a \<in> set chain. \<forall>t. TypeChecker_getCachedResult t a st' = None)) \<and>
           (\<forall>t a. a \<notin> set chain \<longrightarrow>
              TypeChecker_getCachedResult t a st' = TypeChecker_getCachedResult t a st)"
proof -
  from invalidateLoop_chain[OF chain] obtain st' where
    loop: "invalidateLoop (Some obj) st = Some st'" and
    reg: "\<forall>a. typeCheckersWithCachedResultsOfObject st' a =
                  (if a \<in> set chain then None else typeCheckersWithCachedResultsOfObject st a)" and
    cache: "\<forall>t a. TypeChecker_getCachedResult t a st' =
                  (if a \<in> set chain \<and>
                      (\<exists>tcs. typeCheckersWithCachedResultsOfObject st a = Some tcs \<and> t \<in> set tcs)
                   then None else TypeChecker_getCachedResult t a st)"
    by blast
  have mem: "obj \<in> set chain"
    using chain by (cases n) (auto split: option.splits)
  have "invalidateCachedTypeCheckerResult obj st = Some st'"
    using loop by (simp add: invalidateCachedTypeCheckerResult_def)
  moreover have "\<forall>a \<in> set chain.
              typeCheckersWithCachedResultsOfObject st' a = None \<and>
              (\<forall>tcs. typeCheckersWithCachedResultsOfObject st a = Some tcs \<longrightarrow>
                 (\<forall>t \<in> set tcs. TypeChecker_getCachedResult t a st' = None))"
    using reg cache by simp
  moreover have "(\<forall>t a. TypeChecker_getCachedResult t a st \<noteq> None \<longrightarrow>
                (\<exists>tcs. typeCheckersWithCachedResultsOfObject st a = Some tcs \<and> t \<in> set tcs)) \<longrightarrow>
              (\<forall>a \<in> set chain. \<forall>t. TypeChecker_getCachedResult t a st' = None)"
    using cache by metis
  moreover have "\<forall>t a. a \<notin> set chain \<longrightarrow>
              TypeChecker_getCachedResult t a st' = TypeChecker_getCachedResult t a st"
    using cache by simp
  ultimately show ?thesis using mem by blast
qed

theorem invalidation_reaches_every_listener_witness:
  "ancestors 2 exCached 1 = Some [1, 0] \<and>
   typeCheckersWithCachedResultsOfObject exCached 1 = Some [0, 1] \<and>
   typeCheckersWithCachedResultsOfObject exCached 0 = Some [0] \<and>
   TypeChecker_getCachedResult 1 1 exCached = Some None \<and>
   (\<exists>st'. invalidateCachedTypeCheckerResult 1 exCached = Some st' \<and>
      TypeChecker_getCachedResult 0 1 st' = None \<and>
      TypeChecker_getCachedResult 1 1 st' = None \<and>
      TypeChecker_getCachedResult 0 0 st' = None \<and>
      typeCheckersWithCachedResultsOfObject st' 1 = None \<and>
      typeCheckersWithCachedResultsOfObject st' 0 = None \<and>
      (\<forall>t. TypeChecker_getCachedResult t 1 st' = None) \<and>
      (\<forall>t. TypeChecker_getCachedResult t 0 st' = None))"
proof -
  from invalidation_reaches_every_listener_up_to_the_root[OF exCached_facts(1)]
  obtain st' where
    run: "invalidateCachedTypeCheckerResult 1 exCached = Some st'" and
    cleared: "\<forall>a \<in> set [1, 0].
              typeCheckersWithCachedResultsOfObject st' a = None \<and>
              (\<forall>tcs. typeCheckersWithCachedResultsOfObject exCached a = Some tcs \<longrightarrow>
                 (\<forall>t \<in> set tcs. TypeChecker_getCachedResult t a st' = None))" and
    complete: "(\<forall>t a. TypeChecker_getCachedResult t a exCached \<noteq> None \<longrightarrow>
                (\<exists>tcs. typeCheckersWithCachedResultsOfObject exCached a = Some tcs \<and> t \<in> set tcs)) \<longrightarrow>
              (\<forall>a \<in> set [1, 0]. \<forall>t. TypeChecker_getCachedResult t a st' = None)"
    by blast
  from cleared exCached_facts(2) have one:
    "typeCheckersWithCachedResultsOfObject st' 1 = None"
    "TypeChecker_getCachedResult 0 1 st' = None" "TypeChecker_getCachedResult 1 1 st' = None"
    by auto
  from cleared exCached_facts(3) have zero:
    "typeCheckersWithCachedResultsOfObject st' 0 = None"
    "TypeChecker_getCachedResult 0 0 st' = None"
    by auto
  from complete exCached_listeners_complete have everyone:
    "\<forall>t. TypeChecker_getCachedResult t 1 st' = None" "\<forall>t. TypeChecker_getCachedResult t 0 st' = None"
    by auto
  from run one zero everyone exCached_facts show ?thesis by blast
qed

section \<open>Reconciliation\<close>

lemma getSnapshot_primitive:
  "getSnapshot st v = Inr sn \<Longrightarrow> isPrimitive sn \<Longrightarrow> v = sn"
  by (cases v) (auto split: if_splits option.splits)

lemma exTree_snapshots:
  "getSnapshot exTree (Obj 1) = Inr (Obj 2)"
  "getSnapshot exTree (Num 3) = Inr (Num 3)"
  by (simp_all add: exTree_def emptyState_def)

lemma runReconcilers_all_decline:
  assumes "\<forall>e \<in> set es. \<forall>s. \<exists>s'. reconciler e v sn modelPool parent s = (Inr Undefined, s')"
  shows "\<exists>st'. runReconcilers es v sn modelPool parent st = (Inr None, st')"
  using assms
proof (induction es arbitrary: st)
  case Nil
  then show ?case by simp
next
  case (Cons e es)
  then obtain s' where "reconciler e v sn modelPool parent st = (Inr Undefined, s')"
    by (meson list.set_intros(1))
  moreover from Cons obtain st' where "runReconcilers es v sn modelPool parent s' = (Inr None, st')"
    by (meson list.set_intros(2))
  ultimately show ?case by simp
qed

lemma exDefaults_decline:
  "\<forall>e \<in> set (exDefaults []). \<forall>s. \<exists>s'. reconciler e v sn modelPool parent s = (Inr Undefined, s')"
  by (simp add: exDefaults_def registerReconciler_def exDecline_def)

lemma exDefaults_run:
  "runReconcilers (exDefaults []) v sn modelPool parent st = (Inr None, st)"
  by (simp add: exDefaults_def registerReconciler_def exDecline_def)

lemma exTree_kinds:
  "isMap exTree (Obj 4)" "\<not> isMap exTree (Obj 5)" "isSet exTree (Obj 5)"
  "\<not> isMap exTree (Func 7)" "\<not> isSet exTree (Func 7)"
  by (simp_all add: exTree_def emptyState_def)

lemma exTree_model:
  "Obj 1 \<noteq> Null" "isModel exTree (Obj 1)"
  "findModelByTypeAndId exPool (readProp exTree (Obj 1) modelTypeKey) (readProp exTree (Obj 1) modelIdKey) \<noteq> None"
  "fastGetParentPathIncludingDataObjects exTree (Obj 1) = Some (ParentPath 0 (KeyNum 0))"
  "slots exTree 0 (KeyNum 0) = Some (Obj 1)"
  by (simp_all add: exTree_def emptyState_def exPool_def findModelByTypeAndId_def
        modelTypeKey_def modelIdKey_def)

text \<open>
  Claim C1.  When \<^verbatim>\<open>getSnapshot(v)\<close> is identical to the target snapshot \<open>sn\<close>,
  \<^verbatim>\<open>reconcileSnapshot\<close> returns \<open>v\<close> itself; the state and the list of registered reconcilers
  are the ones it was given, so nothing was allocated, no reconciler ran and the default
  reconcilers were not registered.  This holds for every model pool and parent, and whatever the
  registered reconcilers would do.
\<close>

theorem reconcile_own_snapshot_is_noop:
  assumes own: "getSnapshot st v = Inr sn"
  shows "reconcileSnapshot registerDefaultReconcilers reconcilers v sn modelPool parent st =
           (Inr v, reconcilers, st)"
proof (cases "isPrimitive sn")
  case True
  then have "v = sn" using own by (simp add: getSnapshot_primitive)
  then show ?thesis using True by (simp add: reconcileSnapshot_def)
next
  case False
  then show ?thesis using own by (simp add: reconcileSnapshot_def)
qed

theorem reconcile_own_snapshot_is_noop_witness:
  "getSnapshot exTree (Obj 1) = Inr (Obj 2) \<and>
   reconcileSnapshot (registerReconciler 0 exClaimAll) [\<lparr> priority = 1, reconciler = exClaimAll \<rparr>]
       (Obj 1) (Obj 2) exPool (Obj 0) exTree =
     (Inr (Obj 1), [\<lparr> priority = 1, reconciler = exClaimAll \<rparr>], exTree) \<and>
   getSnapshot exTree (Num 3) = Inr (Num 3) \<and>
   reconcileSnapshot (registerReconciler 0 exClaimAll) [\<lparr> priority = 1, reconciler = exClaimAll \<rparr>]
       (Num 3) (Num 3) exPool (Obj 0) exTree =
     (Inr (Num 3), [\<lparr> priority = 1, reconciler = exClaimAll \<rparr>], exTree)"
  using reconcile_own_snapshot_is_noop[OF exTree_snapshots(1)]
        reconcile_own_snapshot_is_noop[OF exTree_snapshots(2)]
        exTree_snapshots
  by simp

text \<open>
  Claim C5, as amended.  For a snapshot \<open>sn\<close> that is not primitive, a current value whose
  snapshot exists and is not identical to \<open>sn\<close>, and registered reconcilers (the default ones
  included) that all decline the pair, \<^verbatim>\<open>reconcileSnapshot\<close> returns no value: it throws, in the
  state \<open>st'\<close> the reconcilers leave, "a snapshot must not contain maps" when \<open>sn\<close> is a
  \<^verbatim>\<open>Map\<close>, "a snapshot must not contain sets" when it is a \<^verbatim>\<open>Set\<close>, and
  "unsupported snapshot" with \<open>sn\<close> otherwise.
\<close>

theorem reconcile_unclaimed_snapshot_fails:
  assumes nonprim: "\<not> isPrimitive sn"
    and current: "getSnapshot st v = Inr current" and differs: "current \<noteq> sn"
    and unclaimed: "\<forall>e \<in> set (registerDefaultReconcilers reconcilers).
                      \<forall>s. \<exists>s'. reconciler e v sn modelPool parent s = (Inr Undefined, s')"
  shows "\<exists>st'. runReconcilers (registerDefaultReconcilers reconcilers) v sn modelPool parent st =
                  (Inr None, st') \<and>
               reconcileSnapshot registerDefaultReconcilers reconcilers v sn modelPool parent st =
                  (Inl (if isMap st' sn then Failure ''a snapshot must not contain maps''
                        else if isSet st' sn then Failure ''a snapshot must not contain sets''
                        else FailureWith ''unsupported snapshot - '' sn),
                   registerDefaultReconcilers reconcilers, st')"
proof -
  from runReconcilers_all_decline[OF unclaimed] obtain st' where
    run: "runReconcilers (registerDefaultReconcilers reconcilers) v sn modelPool parent st =
            (Inr None, st')"
    by blast
  then show ?thesis
    using nonprim current differs by (simp add: reconcileSnapshot_def Let_def)
qed

theorem reconcile_unclaimed_snapshot_fails_witness:
  "reconcileSnapshot exDefaults [] (Obj 1) (Obj 4) exPool (Obj 0) exTree =
     (Inl (Failure ''a snapshot must not contain maps''), exDefaults [], exTree) \<and>
   reconcileSnapshot exDefaults [] (Obj 1) (Obj 5) exPool (Obj 0) exTree =
     (Inl (Failure ''a snapshot must not contain sets''), exDefaults [], exTree) \<and>
   reconcileSnapshot exDefaults [] (Obj 1) (Func 7) exPool (Obj 0) exTree =
     (Inl (FailureWith ''unsupported snapshot - '' (Func 7)), exDefaults [], exTree)"
proof -
  have a: "\<not> isPrimitive (Obj 4)" "\<not> isPrimitive (Obj 5)" "\<not> isPrimitive (Func 7)"
    by simp_all
  have d: "Obj 2 \<noteq> Obj 4" "Obj 2 \<noteq> Obj 5" "Obj 2 \<noteq> Func 7"
    by simp_all
  note inst = reconcile_unclaimed_snapshot_fails
                 [where registerDefaultReconcilers = exDefaults and reconcilers = "[]"
                    and modelPool = exPool and parent = "Obj 0" and st = exTree and v = "Obj 1"
                    and current = "Obj 2"]
  from inst[OF a(1) exTree_snapshots(1) d(1) exDefaults_decline]
       inst[OF a(2) exTree_snapshots(1) d(2) exDefaults_decline]
       inst[OF a(3) exTree_snapshots(1) d(3) exDefaults_decline]
  show ?thesis
    using exTree_kinds by (simp add: exDefaults_run)
qed

text \<open>
  Claim C5 as the spec states it, for any current value, fails: the model 1 of the example tree
  has the snapshot 2, which is not primitive and which no registered reconciler claims (none is
  registered, and the default one declines), yet reconciling the model 1 against the snapshot 2
  returns the model 1 and throws nothing.
\<close>

theorem reconcile_unclaimed_own_snapshot_counterexample:
  "\<not> isPrimitive (Obj 2) \<and>
   runReconcilers (exDefaults []) (Obj 1) (Obj 2) exPool (Obj 0) exTree = (Inr None, exTree) \<and>
   reconcileSnapshot exDefaults [] (Obj 1) (Obj 2) exPool (Obj 0) exTree = (Inr (Obj 1), [], exTree)"
  by (simp add: exDefaults_run reconcileSnapshot_def exTree_def emptyState_def)

text \<open>
  Claim C6.  \<^verbatim>\<open>detachIfNeeded\<close> changes nothing when the new value is identical to the old
  one.  Otherwise, when the new value is a model that the pool finds under its type and id and
  that has a parent, the slot of the parent that the parent path names holds \<^verbatim>\<open>null\<close> when
  \<^verbatim>\<open>detachIfNeeded\<close> returns, no other slot has changed, and (the path metadata being where the
  node is) the node has no parent left: it is detached from the old location before the caller
  attaches it to the new one.
\<close>

theorem detachIfNeeded_clears_old_location:
  "detachIfNeeded v v modelPool st = st \<and>
   (newValue \<noteq> oldValue \<and> isModel st newValue \<and>
    findModelByTypeAndId modelPool
      (readProp st newValue modelTypeKey) (readProp st newValue modelIdKey) \<noteq> None \<and>
    fastGetParentPathIncludingDataObjects st newValue = Some (ParentPath p k) \<longrightarrow>
      slots (detachIfNeeded newValue oldValue modelPool st) p k = Some Null \<and>
      (\<forall>p' k'. (p', k') \<noteq> (p, k) \<longrightarrow>
         slots (detachIfNeeded newValue oldValue modelPool st) p' k' = slots st p' k') \<and>
      (slots st p k = Some newValue \<longrightarrow>
         fastGetParentPathIncludingDataObjects
           (detachIfNeeded newValue oldValue modelPool st) newValue = None))"
proof -
  have same: "detachIfNeeded v v modelPool st = st"
    by (simp add: detachIfNeeded_def)
  have swap: "slots (detachIfNeeded newValue oldValue modelPool st) p k = Some Null \<and>
      (\<forall>p' k'. (p', k') \<noteq> (p, k) \<longrightarrow>
         slots (detachIfNeeded newValue oldValue modelPool st) p' k' = slots st p' k') \<and>
      (slots st p k = Some newValue \<longrightarrow>
         fastGetParentPathIncludingDataObjects
           (detachIfNeeded newValue oldValue modelPool st) newValue = None)"
    if ne: "newValue \<noteq> oldValue" and model: "isModel st newValue"
      and found: "findModelByTypeAndId modelPool
                    (readProp st newValue modelTypeKey) (readProp st newValue modelIdKey) \<noteq> None"
      and at: "fastGetParentPathIncludingDataObjects st newValue = Some (ParentPath p k)"
  proof -
    have run: "detachIfNeeded newValue oldValue modelPool st = mobx_set p k Null st"
      using ne model found at by (simp add: detachIfNeeded_def)
    obtain a where a: "newValue = Obj a"
      using model by (cases newValue) simp_all
    show ?thesis
      unfolding run using a by (auto simp add: mobx_set_def Let_def split: option.splits jsval.splits)
  qed
  from same swap show ?thesis by blast
qed

theorem detachIfNeeded_clears_old_location_witness:
  "Obj 1 \<noteq> Null \<and> isModel exTree (Obj 1) \<and>
   fastGetParentPathIncludingDataObjects exTree (Obj 1) = Some (ParentPath 0 (KeyNum 0)) \<and>
   slots exTree 0 (KeyNum 0) = Some (Obj 1) \<and>
   slots (detachIfNeeded (Obj 1) Null exPool exTree) 0 (KeyNum 0) = Some Null \<and>
   fastGetParentPathIncludingDataObjects (detachIfNeeded (Obj 1) Null exPool exTree) (Obj 1) = None \<and>
   detachIfNeeded (Obj 1) (Obj 1) exPool exTree = exTree"
  using detachIfNeeded_clears_old_location
          [of "Obj 1" exPool exTree "Obj 1" Null 0 "KeyNum 0"]
        exTree_model
  by blast

end
